theory Spec2Isabelle
  imports Main "HOL-Library.Sublist"
begin

section \<open>JavaScript values\<close>

text \<open>
  A string is a list of code units. Each \<^typ>\<open>char\<close> stands for one code unit in the
  range 0..255 (the Latin-1 block, which holds every literal of the two scripts:
  \<open>0xA9\<close> is the copyright sign, \<open>0xE9\<close> is e-acute, \<open>0xC0\<close> is A-grave).

  A value is what \<^verbatim>\<open>JSON.parse\<close> or an object literal of the scripts can produce, plus
  \<^verbatim>\<open>undefined\<close> (the result of reading a missing property). A number is carried by its
  canonical text (\<^verbatim>\<open>String(n)\<close>), which identifies it up to the sign of zero; an object
  is the list of its own properties in insertion order.
\<close>

datatype jsval =
    JUndefined
  | JNull
  | JBool bool
  | JNum string
  | JStr string
  | JArr "jsval list"
  | JObj "(string \<times> jsval) list"

datatype error =
    TypeError
  | External string

text \<open>\<^verbatim>\<open>ToBoolean\<close>: what a JavaScript \<^verbatim>\<open>if (v)\<close> tests.\<close>

fun truthy :: "jsval \<Rightarrow> bool" where
  "truthy JUndefined = False"
| "truthy JNull = False"
| "truthy (JBool b) = b"
| "truthy (JNum n) = (n \<noteq> ''0'' \<and> n \<noteq> ''NaN'')"
| "truthy (JStr s) = (s \<noteq> [])"
| "truthy (JArr xs) = True"
| "truthy (JObj kvs) = True"

text \<open>
  Reading a property \<^verbatim>\<open>v.k\<close>, for the property names of the scripts (none of them is a
  built-in property of a string, a number or an array): \<^verbatim>\<open>undefined\<close> and \<^verbatim>\<open>null\<close>
  raise a TypeError, an object gives its own property or \<^verbatim>\<open>undefined\<close>, every other
  value gives \<^verbatim>\<open>undefined\<close>.
\<close>

fun getProp :: "jsval \<Rightarrow> string \<Rightarrow> error + jsval" where
  "getProp JUndefined k = Inl TypeError"
| "getProp JNull k = Inl TypeError"
| "getProp (JObj kvs) k = Inr (case map_of kvs k of None \<Rightarrow> JUndefined | Some v \<Rightarrow> v)"
| "getProp v k = Inr JUndefined"

text \<open>Setting a property keeps the position of an existing key, and appends a new one.\<close>

fun assign :: "(string \<times> jsval) list \<Rightarrow> string \<Rightarrow> jsval \<Rightarrow> (string \<times> jsval) list" where
  "assign [] k v = [(k, v)]"
| "assign ((k', v') # kvs) k v =
     (if k' = k then (k, v) # kvs else (k', v') # assign kvs k v)"

text \<open>
  Object spread \<^verbatim>\<open>{...target, ...src}\<close>: the properties of the source are set on the
  target in order. Spreading \<^verbatim>\<open>undefined\<close> sets nothing.
\<close>

definition spread :: "(string \<times> jsval) list \<Rightarrow> (string \<times> jsval) list \<Rightarrow> (string \<times> jsval) list" where
  "spread target src = fold (\<lambda>(k, v) t. assign t k v) src target"

definition spreadOpt :: "(string \<times> jsval) list \<Rightarrow> (string \<times> jsval) list option \<Rightarrow> (string \<times> jsval) list" where
  "spreadOpt target src = (case src of None \<Rightarrow> target | Some kvs \<Rightarrow> spread target kvs)"

text \<open>\<^verbatim>\<open>Array.prototype.join\<close> on strings.\<close>

fun join :: "string \<Rightarrow> string list \<Rightarrow> string" where
  "join sep [] = []"
| "join sep [x] = x"
| "join sep (x # y # ys) = x @ sep @ join sep (y # ys)"

text \<open>Results that may be a thrown error, in sequence.\<close>

definition bindE :: "error + 'a \<Rightarrow> ('a \<Rightarrow> error + 'b) \<Rightarrow> error + 'b" where
  "bindE r f = (case r of Inl e \<Rightarrow> Inl e | Inr x \<Rightarrow> f x)"

fun mapE :: "('a \<Rightarrow> error + 'b) \<Rightarrow> 'a list \<Rightarrow> error + 'b list" where
  "mapE f [] = Inr []"
| "mapE f (x # xs) = bindE (f x) (\<lambda>y. bindE (mapE f xs) (\<lambda>ys. Inr (y # ys)))"

text \<open>
  \<^verbatim>\<open>ToString\<close>, as a template literal applies it. An array prints its elements joined
  by commas, \<^verbatim>\<open>null\<close> and \<^verbatim>\<open>undefined\<close> elements as the empty text. An object prints
  \<^verbatim>\<open>[object Object]\<close> through \<^verbatim>\<open>Object.prototype.toString\<close>, unless it has a property
  \<^verbatim>\<open>toString\<close> of its own: a value of a parsed configuration is never a function, so the
  conversion then finds no method that gives a primitive and raises a TypeError.
\<close>

fun toString :: "jsval \<Rightarrow> error + string"
  and elementStrings :: "jsval list \<Rightarrow> error + string list" where
  "toString JUndefined = Inr ''undefined''"
| "toString JNull = Inr ''null''"
| "toString (JBool b) = Inr (if b then ''true'' else ''false'')"
| "toString (JNum n) = Inr n"
| "toString (JStr s) = Inr s"
| "toString (JArr xs) = bindE (elementStrings xs) (\<lambda>parts. Inr (join '','' parts))"
| "toString (JObj kvs) =
     (if map_of kvs ''toString'' = None then Inr ''[object Object]'' else Inl TypeError)"
| "elementStrings [] = Inr []"
| "elementStrings (x # xs) =
     bindE (case x of JUndefined \<Rightarrow> Inr [] | JNull \<Rightarrow> Inr [] | _ \<Rightarrow> toString x) (\<lambda>part.
     bindE (elementStrings xs) (\<lambda>parts. Inr (part # parts)))"

section \<open>Strings: case, whitespace\<close>







section \<open>deploy.js: the answers of the prompt\<close>

record answers =
  clientName :: string
  clientSlug :: string
  title :: string
  description :: string
  primaryColor :: string
  secondaryColor :: string
  siteType :: "string option"








section \<open>deploy.js: generateConfigByType\<close>

definition navItem :: "string \<Rightarrow> string \<Rightarrow> jsval" where
  "navItem label href = JObj [(''label'', JStr label), (''href'', JStr href)]"

definition baseConfig :: "answers \<Rightarrow> (string \<times> jsval) list" where
  "baseConfig a =
     [(''client'', JObj
        [(''name'', JStr (clientName a)),
         (''slug'', JStr (clientSlug a)),
         (''domain'', JStr (clientSlug a @ ''.netlify.app''))]),
      (''seo'', JObj
        [(''title'', JStr (title a)),
         (''description'', JStr (description a)),
         (''keywords'', JStr []),
         (''favicon'', JStr ''/assets/favicon.ico'')]),
      (''theme'', JObj
        [(''primaryColor'', JStr (primaryColor a)),
         (''secondaryColor'', JStr (secondaryColor a)),
         (''accentColor'', JStr ''#e74c3c''),
         (''backgroundColor'', JStr ''#ffffff''),
         (''textColor'', JStr ''#333333''),
         (''fontFamily'', JStr ([CHR 0x27] @ ''Inter'' @ [CHR 0x27] @ '', sans-serif'')),
         (''borderRadius'', JStr ''8px'')])]"

definition restaurantTemplate :: "answers \<Rightarrow> (string \<times> jsval) list" where
  "restaurantTemplate a =
     [(''header'', JObj
        [(''logo'', JStr ''/assets/logo.png''),
         (''navigation'', JArr
           [navItem ''Accueil'' ''#home'',
            navItem ''Menu'' ''#menu'',
            navItem ([CHR 0xC0] @ '' propos'') ''#about'',
            navItem ''Contact'' ''#contact''])]),
      (''hero'', JObj
        [(''title'', JStr (''Bienvenue chez '' @ clientName a)),
         (''subtitle'', JStr (''Une exp'' @ [CHR 0xE9] @ ''rience culinaire unique'')),
         (''backgroundImage'', JStr ''/assets/hero-bg.jpg''),
         (''ctaButton'', JObj
           [(''text'', JStr (''R'' @ [CHR 0xE9] @ ''server une table'')),
            (''href'', JStr ''#contact''),
            (''style'', JStr ''primary'')])]),
      (''sections'', JArr
        [JObj
           [(''id'', JStr ''about''),
            (''type'', JStr ''text-image''),
            (''title'', JStr ''Notre Histoire''),
            (''content'', JStr (''D'' @ [CHR 0xE9] @ ''couvrez notre passion pour la cuisine...'')),
            (''image'', JStr ''/assets/about.jpg''),
            (''layout'', JStr ''image-right'')]])]"

definition businessTemplate :: "answers \<Rightarrow> (string \<times> jsval) list" where
  "businessTemplate a =
     [(''header'', JObj
        [(''logo'', JStr ''/assets/logo.png''),
         (''navigation'', JArr
           [navItem ''Accueil'' ''#home'',
            navItem ''Services'' ''#services'',
            navItem ([CHR 0xC0] @ '' propos'') ''#about'',
            navItem ''Contact'' ''#contact''])]),
      (''hero'', JObj
        [(''title'', JStr (clientName a)),
         (''subtitle'', JStr ''Votre partenaire de confiance''),
         (''backgroundImage'', JStr ''/assets/hero-bg.jpg''),
         (''ctaButton'', JObj
           [(''text'', JStr ''Nos services''),
            (''href'', JStr ''#services''),
            (''style'', JStr ''primary'')])])]"

text \<open>The registry \<^verbatim>\<open>templates\<close>: two site types have a template.\<close>

definition templates :: "answers \<Rightarrow> (string \<times> (string \<times> jsval) list) list" where
  "templates a = [(''restaurant'', restaurantTemplate a), (''business'', businessTemplate a)]"

text \<open>
  \<^verbatim>\<open>templates[answers.siteType]\<close>: the template of a registered type, \<^verbatim>\<open>undefined\<close>
  (here \<open>None\<close>) otherwise, also when the answers have no site type. A name of
  \<^verbatim>\<open>Object.prototype\<close> reads a value with no enumerable property of its own, which a
  spread treats as \<^verbatim>\<open>undefined\<close>.
\<close>

definition lookupTemplate ::
  "(string \<times> (string \<times> jsval) list) list \<Rightarrow> string option \<Rightarrow> (string \<times> jsval) list option" where
  "lookupTemplate registry t = (case t of None \<Rightarrow> None | Some name \<Rightarrow> map_of registry name)"

definition contactSection :: "answers \<Rightarrow> jsval" where
  "contactSection a = JObj
     [(''title'', JStr ''Nous Contacter''),
      (''address'', JObj
        [(''street'', JStr (''Adresse '' @ [CHR 0xE0] @ '' compl'' @ [CHR 0xE9] @ ''ter'')),
         (''city'', JStr ''Ville''),
         (''country'', JStr ''France'')]),
      (''phone'', JStr ''+33 X XX XX XX XX''),
      (''email'', JStr (''contact@'' @ clientSlug a @ ''.com'')),
      (''socialMedia'', JArr [])]"

definition footerSection :: "answers \<Rightarrow> jsval" where
  "footerSection a = JObj
     [(''copyright'', JStr ([CHR 0xA9] @ '' 2024 '' @ clientName a @ ''. Tous droits r''
         @ [CHR 0xE9] @ ''serv'' @ [CHR 0xE9] @ ''s.'')),
      (''links'', JArr [])]"

text \<open>
  The object literal that \<^verbatim>\<open>generateConfigByType\<close> returns, over any registry: the base
  configuration is spread first, then the template of the site type, then \<^verbatim>\<open>contact\<close>
  and \<^verbatim>\<open>footer\<close> are set.
\<close>

definition generateConfigWith ::
  "(string \<times> (string \<times> jsval) list) list \<Rightarrow> answers \<Rightarrow> jsval" where
  "generateConfigWith registry a =
     JObj (assign
       (assign
         (spreadOpt (spread [] (baseConfig a)) (lookupTemplate registry (siteType a)))
         ''contact'' (contactSection a))
       ''footer'' (footerSection a))"

definition generateConfigByType :: "answers \<Rightarrow> jsval" where
  "generateConfigByType a = generateConfigWith (templates a) a"

text \<open>Reading a path of properties, \<^verbatim>\<open>undefined\<close> where the read has no value.\<close>

definition propOf :: "jsval \<Rightarrow> string \<Rightarrow> jsval" where
  "propOf v k = (case getProp v k of Inl e \<Rightarrow> JUndefined | Inr x \<Rightarrow> x)"

definition pathOf :: "jsval \<Rightarrow> string list \<Rightarrow> jsval" where
  "pathOf v ks = fold (\<lambda>k x. propOf x k) ks v"

section \<open>Predicates on strings and configurations\<close>



text \<open>The decimal text of a year, and a text that holds it.\<close>

fun decimal :: "nat \<Rightarrow> string" where
  "decimal n =
     (if n < 10 then [char_of (48 + n)]
      else decimal (n div 10) @ [char_of (48 + n mod 10)])"

definition embedsYear :: "nat \<Rightarrow> string \<Rightarrow> bool" where
  "embedsYear y s = sublist (decimal y) s"

section \<open>generate-site.js: the conditional helper\<close>

text \<open>
  The helper registered under the name \<^verbatim>\<open>if\<close>. \<open>fn\<close> and \<open>inverseFn\<close> are the two
  branches of the block (\<^verbatim>\<open>options.fn\<close>, \<^verbatim>\<open>options.inverse\<close>), \<open>this\<close> the context.
\<close>

definition ifHelper :: "jsval \<Rightarrow> ('c \<Rightarrow> 'r) \<Rightarrow> ('c \<Rightarrow> 'r) \<Rightarrow> 'c \<Rightarrow> 'r" where
  "ifHelper conditional fn inverseFn this =
     (if truthy conditional then fn this else inverseFn this)"

section \<open>generate-site.js: generateAssetsList\<close>

text \<open>
  \<^verbatim>\<open>Set.prototype.add\<close>, the set kept as the list of its members in insertion order.
  Strings, numbers and booleans are compared by value. An object or an array is compared
  by identity, and every object that the traversal of a parsed configuration meets is a
  new one, so it is always added.
\<close>

fun isPrimitive :: "jsval \<Rightarrow> bool" where
  "isPrimitive (JArr xs) = False"
| "isPrimitive (JObj kvs) = False"
| "isPrimitive v = True"

definition setAdd :: "jsval list \<Rightarrow> jsval \<Rightarrow> jsval list" where
  "setAdd assets v = (if isPrimitive v \<and> v \<in> set assets then assets else assets @ [v])"

definition addIfTruthy :: "jsval list \<Rightarrow> jsval \<Rightarrow> jsval list" where
  "addIfTruthy assets v = (if truthy v then setAdd assets v else assets)"

text \<open>\<^verbatim>\<open>section.items.forEach(item => { if (item.image) assets.add(item.image); })\<close>\<close>

fun addItems :: "jsval list \<Rightarrow> jsval list \<Rightarrow> error + jsval list" where
  "addItems assets [] = Inr assets"
| "addItems assets (item # items) =
     bindE (getProp item ''image'') (\<lambda>image. addItems (addIfTruthy assets image) items)"

text \<open>
  \<^verbatim>\<open>v.forEach(f)\<close> on a value that is not an array raises a TypeError: the read of
  \<^verbatim>\<open>forEach\<close> fails on \<^verbatim>\<open>undefined\<close> and \<^verbatim>\<open>null\<close>, and gives no function on any
  other value.
\<close>

definition forEachItems :: "jsval list \<Rightarrow> jsval \<Rightarrow> error + jsval list" where
  "forEachItems assets items =
     (case items of JArr xs \<Rightarrow> addItems assets xs | _ \<Rightarrow> Inl TypeError)"

fun addSections :: "jsval list \<Rightarrow> jsval list \<Rightarrow> error + jsval list" where
  "addSections assets [] = Inr assets"
| "addSections assets (section # sections) =
     bindE (getProp section ''image'') (\<lambda>image.
     bindE (getProp section ''items'') (\<lambda>items.
     bindE (if truthy items then forEachItems (addIfTruthy assets image) items
            else Inr (addIfTruthy assets image)) (\<lambda>assets'.
     addSections assets' sections)))"

definition forEachSections :: "jsval list \<Rightarrow> jsval \<Rightarrow> error + jsval list" where
  "forEachSections assets sections =
     (case sections of JArr xs \<Rightarrow> addSections assets xs | _ \<Rightarrow> Inl TypeError)"

text \<open>The members of the set \<^verbatim>\<open>assets\<close> when the traversal ends.\<close>

definition collectAssets :: "jsval \<Rightarrow> error + jsval list" where
  "collectAssets config =
     bindE (getProp config ''header'') (\<lambda>header.
     bindE (getProp header ''logo'') (\<lambda>logo.
     bindE (getProp config ''hero'') (\<lambda>hero.
     bindE (getProp hero ''backgroundImage'') (\<lambda>backgroundImage.
     bindE (getProp config ''sections'') (\<lambda>sections.
     forEachSections (addIfTruthy (addIfTruthy [] logo) backgroundImage) sections)))))"

definition generateAssetsList :: "jsval \<Rightarrow> error + string" where
  "generateAssetsList config =
     bindE (collectAssets config) (\<lambda>assets.
     bindE (mapE (\<lambda>asset. bindE (toString asset) (\<lambda>shown. Inr (''- '' @ shown))) assets) (\<lambda>lines.
     Inr (join [CHR 0x0A] lines)))"








section \<open>Effects: console lines, system calls, exceptions\<close>

text \<open>
  One constructor for each \<^verbatim>\<open>console.log\<close> and \<^verbatim>\<open>console.error\<close> of the two scripts,
  with the values its text embeds.
\<close>

datatype line =
    GenStart string
  | ConfigLoaded string
  | HtmlGenerated
  | CssCopied
  | AssetsDirCreated
  | ReadmeCreated
  | GenDone string
  | GenReady
  | GenError error
  | BulkStart nat
  | BulkDone
  | BulkError error
  | DeployStart string
  | GitInitialised
  | DeployReady
  | InstructionsHeader
  | InstructionCreate string
  | InstructionPush
  | InstructionConnect
  | InstructionDetect
  | DeployError error

text \<open>The calls to the file system and to version control, with their arguments.\<close>

datatype call =
    ReadFile string
  | WriteFile string string
  | Mkdir string
  | CopyFile string string
  | Readdir string
  | Stat string
  | Access string
  | SimpleGit string
  | GitInit string
  | GitAdd string string
  | GitCommit string string

text \<open>
  What a run leaves behind, in order: a line on the console, or a call together with the
  error it was rejected with (\<open>None\<close> when it was fulfilled).
\<close>

datatype event =
    Console line
  | Called call "error option"

text \<open>
  The environment. \<open>'w\<close> is the state of the world (the disk, the repositories, the
  clock); every operation may depend on it, change it, and fail. \<^verbatim>\<open>JSON.parse\<close> and the
  rendering of a Handlebars template are functions of their arguments that may throw.
\<close>

record 'w ops =
  readFile :: "string \<Rightarrow> 'w \<Rightarrow> (error + string) \<times> 'w"
  writeFile :: "string \<Rightarrow> string \<Rightarrow> 'w \<Rightarrow> (error + unit) \<times> 'w"
  mkdir :: "string \<Rightarrow> 'w \<Rightarrow> (error + unit) \<times> 'w"
  copyFile :: "string \<Rightarrow> string \<Rightarrow> 'w \<Rightarrow> (error + unit) \<times> 'w"
  readdir :: "string \<Rightarrow> 'w \<Rightarrow> (error + string list) \<times> 'w"
  statIsDirectory :: "string \<Rightarrow> 'w \<Rightarrow> (error + bool) \<times> 'w"
  access :: "string \<Rightarrow> 'w \<Rightarrow> (error + unit) \<times> 'w"
  simpleGit :: "string \<Rightarrow> 'w \<Rightarrow> (error + unit) \<times> 'w"
  gitInit :: "string \<Rightarrow> 'w \<Rightarrow> (error + unit) \<times> 'w"
  gitAdd :: "string \<Rightarrow> string \<Rightarrow> 'w \<Rightarrow> (error + unit) \<times> 'w"
  gitCommit :: "string \<Rightarrow> string \<Rightarrow> 'w \<Rightarrow> (error + unit) \<times> 'w"
  nowISO :: "'w \<Rightarrow> string \<times> 'w"
  jsonParse :: "string \<Rightarrow> error + jsval"
  handlebarsRender :: "string \<Rightarrow> jsval \<Rightarrow> error + string"

text \<open>
  An asynchronous function of the scripts: from the state of the world to its result (a
  thrown error or a value), the events of the run and the new state.
\<close>

type_synonym ('a, 'w) prog = "'w \<Rightarrow> (error + 'a) \<times> event list \<times> 'w"

definition ret :: "'a \<Rightarrow> ('a, 'w) prog" where
  "ret x w = (Inr x, [], w)"

definition raise :: "error \<Rightarrow> ('a, 'w) prog" where
  "raise e w = (Inl e, [], w)"

definition fromResult :: "error + 'a \<Rightarrow> ('a, 'w) prog" where
  "fromResult r w = (r, [], w)"

definition andThen :: "('a, 'w) prog \<Rightarrow> ('a \<Rightarrow> ('b, 'w) prog) \<Rightarrow> ('b, 'w) prog" where
  "andThen m f w =
     (case m w of
        (Inl e, evs, w') \<Rightarrow> (Inl e, evs, w')
      | (Inr x, evs, w') \<Rightarrow> (case f x w' of (r, evs', w'') \<Rightarrow> (r, evs @ evs', w'')))"

definition tryCatch :: "('a, 'w) prog \<Rightarrow> (error \<Rightarrow> ('a, 'w) prog) \<Rightarrow> ('a, 'w) prog" where
  "tryCatch m handler w =
     (case m w of
        (Inl e, evs, w') \<Rightarrow> (case handler e w' of (r, evs', w'') \<Rightarrow> (r, evs @ evs', w''))
      | (Inr x, evs, w') \<Rightarrow> (Inr x, evs, w'))"

definition console :: "line \<Rightarrow> (unit, 'w) prog" where
  "console l w = (Inr (), [Console l], w)"

definition perform :: "call \<Rightarrow> ('w \<Rightarrow> (error + 'a) \<times> 'w) \<Rightarrow> ('a, 'w) prog" where
  "perform c operation w =
     (case operation w of
        (r, w') \<Rightarrow> (r, [Called c (case r of Inl e \<Rightarrow> Some e | Inr x \<Rightarrow> None)], w'))"

text \<open>\<^verbatim>\<open>promise.then(() => true).catch(() => false)\<close>\<close>

definition fulfilled :: "(unit, 'w) prog \<Rightarrow> (bool, 'w) prog" where
  "fulfilled m w =
     (case m w of
        (Inl e, evs, w') \<Rightarrow> (Inr False, evs, w')
      | (Inr x, evs, w') \<Rightarrow> (Inr True, evs, w'))"

definition clock :: "'w ops \<Rightarrow> (string, 'w) prog" where
  "clock ops w = (case nowISO ops w of (stamp, w') \<Rightarrow> (Inr stamp, [], w'))"

text \<open>\<^verbatim>\<open>for (const x of xs) { await f(x); }\<close>: the first error ends the loop.\<close>

fun forEachProg :: "('a \<Rightarrow> (unit, 'w) prog) \<Rightarrow> 'a list \<Rightarrow> (unit, 'w) prog" where
  "forEachProg f [] = ret ()"
| "forEachProg f (x # xs) = andThen (f x) (\<lambda>u. forEachProg f xs)"

section \<open>Paths\<close>

text \<open>
  The three directories of the constructors, relative to the root of the repository, and
  \<^verbatim>\<open>path.join\<close> of two strings on a POSIX system: the arguments that are not empty are
  joined by a slash and the result is normalised (empty and \<open>.\<close> segments are dropped,
  a \<open>..\<close> segment removes the segment before it, a trailing slash is kept).
  \<^verbatim>\<open>path.join\<close> raises a TypeError on an argument that is not a string.
\<close>

definition templatesDir :: string where
  "templatesDir = ''templates''"


definition outputDir :: string where
  "outputDir = ''output''"

fun splitSlash :: "string \<Rightarrow> string list" where
  "splitSlash [] = [[]]"
| "splitSlash (c # cs) =
     (if c = CHR ''/'' then [] # splitSlash cs
      else (case splitSlash cs of
              [] \<Rightarrow> [[c]]
            | segment # segments \<Rightarrow> (c # segment) # segments))"

text \<open>
  One segment of \<^verbatim>\<open>normalizeString\<close>, on the segments kept so far (the last one
  first). \<open>allowAbove\<close> tells whether the path may climb above its start, which a relative
  path may and an absolute one may not.
\<close>

definition normalizeStep :: "bool \<Rightarrow> string \<Rightarrow> string list \<Rightarrow> string list" where
  "normalizeStep allowAbove segment kept =
     (if segment = [] \<or> segment = ''.'' then kept
      else if segment = ''..'' then
        (case kept of
           [] \<Rightarrow> (if allowAbove then [''..''] else [])
         | lastKept # before \<Rightarrow>
             (if lastKept = ''..'' then (if allowAbove then ''..'' # kept else kept) else before))
      else segment # kept)"

definition normalize :: "string \<Rightarrow> string" where
  "normalize path =
     (if path = [] then ''.''
      else
        let isAbsolute = (hd path = CHR ''/'');
            trailingSeparator = (last path = CHR ''/'');
            kept = join ''/'' (rev (fold (normalizeStep (\<not> isAbsolute)) (splitSlash path) []))
        in if kept = [] then (if isAbsolute then ''/'' else if trailingSeparator then ''./'' else ''.'')
           else (if isAbsolute then ''/'' else []) @ kept @ (if trailingSeparator then ''/'' else []))"

definition pathJoin :: "string \<Rightarrow> string \<Rightarrow> string" where
  "pathJoin dir segment =
     (if dir = [] \<and> segment = [] then ''.''
      else if dir = [] then normalize segment
      else if segment = [] then normalize dir
      else normalize (dir @ ''/'' @ segment))"

definition pathJoinValue :: "string \<Rightarrow> jsval \<Rightarrow> error + string" where
  "pathJoinValue dir v = (case v of JStr segment \<Rightarrow> Inr (pathJoin dir segment) | _ \<Rightarrow> Inl TypeError)"


section \<open>generate-site.js: SiteGenerator\<close>

definition loadConfig :: "'w ops \<Rightarrow> string \<Rightarrow> (jsval, 'w) prog" where
  "loadConfig ops configPath =
     andThen (perform (ReadFile configPath) (readFile ops configPath)) (\<lambda>configFile.
     fromResult (jsonParse ops configFile))"

definition generateHTML :: "'w ops \<Rightarrow> jsval \<Rightarrow> string \<Rightarrow> (unit, 'w) prog" where
  "generateHTML ops config outDir =
     andThen (perform (ReadFile (pathJoin templatesDir ''index.html''))
                (readFile ops (pathJoin templatesDir ''index.html''))) (\<lambda>templateContent.
     andThen (fromResult (handlebarsRender ops templateContent config)) (\<lambda>generatedHTML.
     andThen (perform (WriteFile (pathJoin outDir ''index.html'') generatedHTML)
                (writeFile ops (pathJoin outDir ''index.html'') generatedHTML)) (\<lambda>u.
     console HtmlGenerated)))"

definition copyAssets :: "'w ops \<Rightarrow> string \<Rightarrow> (unit, 'w) prog" where
  "copyAssets ops outDir =
     andThen (perform (CopyFile (pathJoin templatesDir ''styles.css'') (pathJoin outDir ''styles.css''))
                (copyFile ops (pathJoin templatesDir ''styles.css'') (pathJoin outDir ''styles.css''))) (\<lambda>u.
     andThen (console CssCopied) (\<lambda>u.
     andThen (perform (Mkdir (pathJoin outDir ''assets'')) (mkdir ops (pathJoin outDir ''assets''))) (\<lambda>u.
     console AssetsDirCreated)))"

definition redirectsContent :: string where
  "redirectsContent = ''/*    /index.html   200''"

definition netlifyConfig :: string where
  "netlifyConfig = join [CHR 0x0A]
     [''[build]'',
      ''  publish = '' @ [CHR 0x22] @ ''.'' @ [CHR 0x22],
      ''  '',
      ''[build.environment]'',
      ''  NODE_VERSION = '' @ [CHR 0x22] @ ''18'' @ [CHR 0x22],
      [],
      ''[[headers]]'',
      ''  for = '' @ [CHR 0x22] @ ''/*'' @ [CHR 0x22],
      ''  [headers.values]'',
      ''    X-Frame-Options = '' @ [CHR 0x22] @ ''DENY'' @ [CHR 0x22],
      ''    X-XSS-Protection = '' @ [CHR 0x22] @ ''1; mode=block'' @ [CHR 0x22],
      ''    X-Content-Type-Options = '' @ [CHR 0x22] @ ''nosniff'' @ [CHR 0x22],
      [],
      ''[[headers]]'',
      ''  for = '' @ [CHR 0x22] @ ''/assets/*'' @ [CHR 0x22],
      ''  [headers.values]'',
      ''    cache-control = '' @ [CHR 0x22] @ ''public, max-age=31536000'' @ [CHR 0x22]]"

text \<open>Every line of the text, each followed by a line feed.\<close>

definition unlines :: "string list \<Rightarrow> string" where
  "unlines ls = concat (map (\<lambda>l. l @ [CHR 0x0A]) ls)"

text \<open>
  The template literal of the README. Its expressions are evaluated and converted to text
  from left to right; a read of a property of a missing block raises a TypeError.
\<close>

definition readmeContent :: "jsval \<Rightarrow> error + string" where
  "readmeContent config =
     bindE (getProp config ''client'') (\<lambda>client.
     bindE (getProp client ''name'') (\<lambda>nameValue.
     bindE (toString nameValue) (\<lambda>name.
     bindE (generateAssetsList config) (\<lambda>assetsList.
     bindE (getProp client ''slug'') (\<lambda>slugValue.
     bindE (toString slugValue) (\<lambda>slug.
     bindE (getProp config ''theme'') (\<lambda>theme.
     bindE (getProp theme ''primaryColor'') (\<lambda>colorValue.
     bindE (toString colorValue) (\<lambda>color.
     bindE (getProp config ''contact'') (\<lambda>contact.
     bindE (getProp contact ''email'') (\<lambda>emailValue.
     bindE (toString emailValue) (\<lambda>email.
     Inr (unlines
       ([''# '' @ name,
         [],
         ''Site web g'' @ [CHR 0xE9] @ ''n'' @ [CHR 0xE9] @ ''r'' @ [CHR 0xE9] @ '' automatiquement.'',
         [],
         ''## D'' @ [CHR 0xE9] @ ''ploiement Netlify'',
         [],
         ''1. Connecter ce dossier '' @ [CHR 0xE0] @ '' un repository Git'',
         ''2. Connecter le repository '' @ [CHR 0xE0] @ '' Netlify'',
         ''3. Le site sera automatiquement d'' @ [CHR 0xE9] @ ''ploy'' @ [CHR 0xE9],
         [],
         ''## Assets requis'',
         [],
         ''Placez les images suivantes dans le dossier '' @ [CHR 0x60] @ ''assets/'' @ [CHR 0x60] @ '':'',
         [],
         assetsList,
         [],
         ''## Configuration'',
         [],
         ''Ce site a '' @ [CHR 0xE9] @ ''t'' @ [CHR 0xE9] @ '' g'' @ [CHR 0xE9] @ ''n'' @ [CHR 0xE9] @ ''r'' @ [CHR 0xE9] @ '' '' @ [CHR 0xE0] @ '' partir de la configuration:'',
         ''- Nom: '' @ name,
         ''- Slug: '' @ slug,
         ''- Couleur primaire: '' @ color,
         ''- Email de contact: '' @ email,
         [],
         ''Pour modifier le site, '' @ [CHR 0xE9] @ ''ditez la configuration JSON et relancez la g'' @ [CHR 0xE9] @ ''n'' @ [CHR 0xE9] @ ''ration.'']))))))))))))))"

definition setupProjectFiles :: "'w ops \<Rightarrow> jsval \<Rightarrow> string \<Rightarrow> (unit, 'w) prog" where
  "setupProjectFiles ops config outDir =
     andThen (perform (WriteFile (pathJoin outDir ''_redirects'') redirectsContent)
                (writeFile ops (pathJoin outDir ''_redirects'') redirectsContent)) (\<lambda>u.
     andThen (perform (WriteFile (pathJoin outDir ''netlify.toml'') netlifyConfig)
                (writeFile ops (pathJoin outDir ''netlify.toml'') netlifyConfig)) (\<lambda>u.
     andThen (fromResult (readmeContent config)) (\<lambda>readme.
     andThen (perform (WriteFile (pathJoin outDir ''README.md'') readme)
                (writeFile ops (pathJoin outDir ''README.md'') readme)) (\<lambda>u.
     console ReadmeCreated))))"

text \<open>The body of the \<^verbatim>\<open>try\<close> block of \<^verbatim>\<open>generateSite\<close>.\<close>

definition generateSiteBody :: "'w ops \<Rightarrow> string \<Rightarrow> (string, 'w) prog" where
  "generateSiteBody ops configPath =
     andThen (console (GenStart configPath)) (\<lambda>u.
     andThen (loadConfig ops configPath) (\<lambda>config.
     andThen (fromResult (bindE (getProp config ''client'') (\<lambda>client.
                bindE (getProp client ''name'') toString))) (\<lambda>name.
     andThen (console (ConfigLoaded name)) (\<lambda>u.
     andThen (fromResult (bindE (getProp config ''client'') (\<lambda>client.
                bindE (getProp client ''slug'') (pathJoinValue outputDir)))) (\<lambda>siteOutputDir.
     andThen (perform (Mkdir siteOutputDir) (mkdir ops siteOutputDir)) (\<lambda>u.
     andThen (generateHTML ops config siteOutputDir) (\<lambda>u.
     andThen (copyAssets ops siteOutputDir) (\<lambda>u.
     andThen (setupProjectFiles ops config siteOutputDir) (\<lambda>u.
     andThen (console (GenDone siteOutputDir)) (\<lambda>u.
     andThen (console GenReady) (\<lambda>u.
     ret siteOutputDir)))))))))))"

text \<open>The \<^verbatim>\<open>catch\<close> block logs the error and throws it again.\<close>

definition generateSite :: "'w ops \<Rightarrow> string \<Rightarrow> (string, 'w) prog" where
  "generateSite ops configPath =
     tryCatch (generateSiteBody ops configPath)
       (\<lambda>error. andThen (console (GenError error)) (\<lambda>u. raise error))"


section \<open>deploy.js: DeploymentManager\<close>

definition gitignoreContent :: string where
  "gitignoreContent = join [CHR 0x0A]
     [''node_modules/'',
      ''*.log'',
      ''.DS_Store'',
      ''.env'',
      ''dist/'',
      ''tmp/'']"

definition initializeGit :: "'w ops \<Rightarrow> string \<Rightarrow> (unit, 'w) prog" where
  "initializeGit ops siteDir =
     andThen (perform (SimpleGit siteDir) (simpleGit ops siteDir)) (\<lambda>u.
     andThen (perform (GitInit siteDir) (gitInit ops siteDir)) (\<lambda>u.
     andThen (perform (WriteFile (pathJoin siteDir ''.gitignore'') gitignoreContent)
                (writeFile ops (pathJoin siteDir ''.gitignore'') gitignoreContent)) (\<lambda>u.
     console GitInitialised)))"

definition commitMessage :: "string \<Rightarrow> string \<Rightarrow> string" where
  "commitMessage siteName stamp = ''Deploy '' @ siteName @ '' - '' @ stamp"

text \<open>
  The \<^verbatim>\<open>try\<close> block of \<^verbatim>\<open>deployToNetlify\<close>, in the three steps its comments
  number: the probe for \<^verbatim>\<open>.git\<close> and the initialisation, the staging and the commit,
  the instructions.
\<close>

definition probeGit :: "'w ops \<Rightarrow> string \<Rightarrow> (bool, 'w) prog" where
  "probeGit ops siteDir =
     fulfilled (perform (Access (pathJoin siteDir ''.git'')) (access ops (pathJoin siteDir ''.git'')))"

definition stageAndCommit :: "'w ops \<Rightarrow> string \<Rightarrow> string \<Rightarrow> (unit, 'w) prog" where
  "stageAndCommit ops siteDir siteName =
     andThen (perform (SimpleGit siteDir) (simpleGit ops siteDir)) (\<lambda>u.
     andThen (perform (GitAdd siteDir ''.'') (gitAdd ops siteDir ''.'')) (\<lambda>u.
     andThen (clock ops) (\<lambda>stamp.
     perform (GitCommit siteDir (commitMessage siteName stamp))
       (gitCommit ops siteDir (commitMessage siteName stamp)))))"

definition printInstructions :: "string \<Rightarrow> (unit, 'w) prog" where
  "printInstructions siteDir =
     andThen (console DeployReady) (\<lambda>u.
     andThen (console InstructionsHeader) (\<lambda>u.
     andThen (console (InstructionCreate siteDir)) (\<lambda>u.
     andThen (console InstructionPush) (\<lambda>u.
     andThen (console InstructionConnect) (\<lambda>u.
     console InstructionDetect)))))"

definition deployBody :: "'w ops \<Rightarrow> string \<Rightarrow> string \<Rightarrow> (bool, 'w) prog" where
  "deployBody ops siteDir siteName =
     andThen (console (DeployStart siteName)) (\<lambda>u.
     andThen (probeGit ops siteDir) (\<lambda>hasGit.
     andThen (if \<not> hasGit then initializeGit ops siteDir else ret ()) (\<lambda>u.
     andThen (stageAndCommit ops siteDir siteName) (\<lambda>u.
     andThen (printInstructions siteDir) (\<lambda>u.
     ret True)))))"

definition deployToNetlify :: "'w ops \<Rightarrow> string \<Rightarrow> string \<Rightarrow> (bool, 'w) prog" where
  "deployToNetlify ops siteDir siteName =
     tryCatch (deployBody ops siteDir siteName)
       (\<lambda>error. andThen (console (DeployError error)) (\<lambda>u. ret False))"

definition deployOne :: "'w ops \<Rightarrow> string \<Rightarrow> (unit, 'w) prog" where
  "deployOne ops site =
     andThen (perform (Stat (pathJoin outputDir site)) (statIsDirectory ops (pathJoin outputDir site))) (\<lambda>isDirectory.
     if isDirectory then andThen (deployToNetlify ops (pathJoin outputDir site) site) (\<lambda>b. ret ())
     else ret ())"

definition deployAll :: "'w ops \<Rightarrow> (unit, 'w) prog" where
  "deployAll ops =
     andThen (perform (Readdir outputDir) (readdir ops outputDir)) (\<lambda>sites.
     forEachProg (deployOne ops) sites)"

section \<open>Reading a run\<close>

text \<open>
  \<open>post m Q\<close>: in every state of the world, the result and the events of the run of
  \<open>m\<close> satisfy \<open>Q\<close>. \<open>runOf m r evs\<close>: some run of \<open>m\<close> has the result \<open>r\<close> and
  the events \<open>evs\<close>.
\<close>

definition post :: "('a, 'w) prog \<Rightarrow> (error + 'a \<Rightarrow> event list \<Rightarrow> bool) \<Rightarrow> bool" where
  "post m Q = (\<forall>w. Q (fst (m w)) (fst (snd (m w))))"


definition thrown :: "error + 'a \<Rightarrow> error option" where
  "thrown r = (case r of Inl e \<Rightarrow> Some e | Inr x \<Rightarrow> None)"

text \<open>The calls of a run, in order.\<close>

definition callsOf :: "event list \<Rightarrow> call list" where
  "callsOf evs = concat (map (\<lambda>ev. case ev of Called c r \<Rightarrow> [c] | Console l \<Rightarrow> []) evs)"

text \<open>
  The calls of a run that were rejected, with their errors. The probe for \<^verbatim>\<open>.git\<close> is not
  counted: its rejection is the answer \<^verbatim>\<open>false\<close>, not a failure.
\<close>

fun isProbe :: "call \<Rightarrow> bool" where
  "isProbe (Access p) = True"
| "isProbe c = False"

definition failedCalls :: "event list \<Rightarrow> (call \<times> error) list" where
  "failedCalls evs =
     concat (map (\<lambda>ev. case ev of
                 Called c (Some e) \<Rightarrow> (if isProbe c then [] else [(c, e)])
               | _ \<Rightarrow> []) evs)"

text \<open>The sites whose deployment was started, and the configurations whose build was started.\<close>

definition deployStarts :: "event list \<Rightarrow> string list" where
  "deployStarts evs =
     concat (map (\<lambda>ev. case ev of Console (DeployStart n) \<Rightarrow> [n] | _ \<Rightarrow> []) evs)"


text \<open>The calls that initialise version control or write a file.\<close>

fun initialises :: "call \<Rightarrow> bool" where
  "initialises (GitInit d) = True"
| "initialises (WriteFile p c) = True"
| "initialises c = False"






text \<open>
  A run is faithful when it throws exactly the error of its one rejected call, right after
  that call, and fulfils every call when it returns.
\<close>

definition faithful :: "error option \<Rightarrow> event list \<Rightarrow> bool" where
  "faithful t evs =
     (case t of
        None \<Rightarrow> failedCalls evs = []
      | Some e \<Rightarrow> \<exists>pre c. evs = pre @ [Called c (Some e)] \<and> \<not> isProbe c \<and> failedCalls pre = [])"

text \<open>A deployment that returns from its \<^verbatim>\<open>try\<close> block returns true, after the last instruction.\<close>

definition finished :: "error + bool \<Rightarrow> event list \<Rightarrow> bool" where
  "finished r evs =
     (case r of Inl e \<Rightarrow> True | Inr b \<Rightarrow> b \<and> evs \<noteq> [] \<and> last evs = Console InstructionDetect)"

text \<open>The events that start a deployment or a build.\<close>

fun isDeployStart :: "event \<Rightarrow> bool" where
  "isDeployStart (Console (DeployStart n)) = True"
| "isDeployStart ev = False"


text \<open>
  The run of \<^verbatim>\<open>deployAll\<close> on one entry of the output directory, from the state \<open>w\<close>
  to the state \<open>w'\<close>: \<^verbatim>\<open>stat\<close> is fulfilled and answers \<open>isDirectory\<close>; for a
  directory the run goes on with the run of \<^verbatim>\<open>deployToNetlify\<close> on the entry from the
  state that \<^verbatim>\<open>stat\<close> left, for any other entry it ends there.
\<close>

definition entryRunAt :: "'w ops \<Rightarrow> string \<times> bool \<Rightarrow> 'w \<Rightarrow> event list \<Rightarrow> 'w \<Rightarrow> bool" where
  "entryRunAt ops entry w run w' =
     (case entry of (site, isDirectory) \<Rightarrow>
        \<exists>w1. statIsDirectory ops (pathJoin outputDir site) w = (Inr isDirectory, w1) \<and>
          (if isDirectory
           then \<exists>b tail. deployToNetlify ops (pathJoin outputDir site) site w1 = (Inr b, tail, w') \<and>
                  run = Called (Stat (pathJoin outputDir site)) None # tail
           else run = [Called (Stat (pathJoin outputDir site)) None] \<and> w' = w1))"

text \<open>Runs one after the other, each from the state the one before left.\<close>

fun chain :: "('a \<Rightarrow> 'w \<Rightarrow> event list \<Rightarrow> 'w \<Rightarrow> bool) \<Rightarrow> 'a list \<Rightarrow> 'w \<Rightarrow> event list list \<Rightarrow> 'w \<Rightarrow> bool" where
  "chain step [] w runs w' = (runs = [] \<and> w' = w)"
| "chain step (x # xs) w runs w' =
     (case runs of
        [] \<Rightarrow> False
      | run # rest \<Rightarrow> \<exists>w1. step x w run w1 \<and> chain step xs w1 rest w')"




section \<open>A world for the examples\<close>

text \<open>
  A small world to run the scripts in. Its state is the list of the paths created so far;
  the texts of the files, the listings of the directories, the entries that are
  directories, the repositories that refuse a commit and the values of the JSON texts are
  fixed by the fixture.
\<close>

record fixture =
  fileTexts :: "(string \<times> string) list"
  listings :: "(string \<times> string list) list"
  directories :: "string list"
  lockedRepos :: "string list"
  parsed :: "(string \<times> jsval) list"

definition fixtureOps :: "fixture \<Rightarrow> (string list) ops" where
  "fixtureOps fx = \<lparr>
     readFile = (\<lambda>p w. (case map_of (fileTexts fx) p of
                           None \<Rightarrow> Inl (External ''ENOENT'') | Some t \<Rightarrow> Inr t, w)),
     writeFile = (\<lambda>p c w. (Inr (), p # w)),
     mkdir = (\<lambda>p w. (Inr (), p # w)),
     copyFile = (\<lambda>a b w. (Inr (), b # w)),
     readdir = (\<lambda>d w. (case map_of (listings fx) d of
                          None \<Rightarrow> Inl (External ''ENOENT'') | Some names \<Rightarrow> Inr names, w)),
     statIsDirectory = (\<lambda>p w. (Inr (p \<in> set (directories fx)), w)),
     access = (\<lambda>p w. (if p \<in> set w then Inr () else Inl (External ''ENOENT''), w)),
     simpleGit = (\<lambda>d w. (Inr (), w)),
     gitInit = (\<lambda>d w. (Inr (), pathJoin d ''.git'' # w)),
     gitAdd = (\<lambda>d f w. (Inr (), w)),
     gitCommit = (\<lambda>d m w. (if d \<in> set (lockedRepos fx) then Inl (External ''EACCES'') else Inr (), w)),
     nowISO = (\<lambda>w. (''2024-01-01T00:00:00.000Z'', w)),
     jsonParse = (\<lambda>t. case map_of (parsed fx) t of
                         None \<Rightarrow> Inl (External ''SyntaxError'') | Some v \<Rightarrow> Inr v),
     handlebarsRender = (\<lambda>t c. Inr t) \<rparr>"

text \<open>
  One site with its repository. A write makes the work tree dirty, \<^verbatim>\<open>add\<close> stages what
  is dirty, and \<^verbatim>\<open>commit\<close> adds a commit when something is staged; on a clean index it
  is fulfilled and adds none, as \<^verbatim>\<open>git commit\<close> driven by simple-git is.
\<close>

record repo =
  present :: "string list"
  dirty :: bool
  staged :: bool
  commitLog :: "string list"

definition repoOps :: "repo ops" where
  "repoOps = \<lparr>
     readFile = (\<lambda>p w. (Inl (External ''ENOENT''), w)),
     writeFile = (\<lambda>p c w. (Inr (), w\<lparr>present := p # present w, dirty := True\<rparr>)),
     mkdir = (\<lambda>p w. (Inr (), w\<lparr>present := p # present w\<rparr>)),
     copyFile = (\<lambda>a b w. (Inr (), w\<lparr>present := b # present w, dirty := True\<rparr>)),
     readdir = (\<lambda>d w. (Inl (External ''ENOENT''), w)),
     statIsDirectory = (\<lambda>p w. (Inr False, w)),
     access = (\<lambda>p w. (if p \<in> set (present w) then Inr () else Inl (External ''ENOENT''), w)),
     simpleGit = (\<lambda>d w. (Inr (), w)),
     gitInit = (\<lambda>d w. (Inr (), w\<lparr>present := pathJoin d ''.git'' # present w\<rparr>)),
     gitAdd = (\<lambda>d f w. (Inr (), w\<lparr>staged := (staged w \<or> dirty w), dirty := False\<rparr>)),
     gitCommit = (\<lambda>d m w. (Inr (),
                    if staged w then w\<lparr>commitLog := m # commitLog w, staged := False\<rparr> else w)),
     nowISO = (\<lambda>w. (''2024-01-01T00:00:00.000Z'', w)),
     jsonParse = (\<lambda>t. Inl (External ''SyntaxError'')),
     handlebarsRender = (\<lambda>t c. Inr t) \<rparr>"

section \<open>Example inputs\<close>

definition acme :: answers where
  "acme = \<lparr> clientName = ''Acme'', clientSlug = ''acme'', title = ''Acme'', description = [],
     primaryColor = ''#3498db'', secondaryColor = ''#2c3e50'', siteType = Some ''unknown'' \<rparr>"

text \<open>A registry whose template defines \<^verbatim>\<open>contact\<close> and \<^verbatim>\<open>footer\<close> fields of its own.\<close>

definition overridingRegistry :: "(string \<times> (string \<times> jsval) list) list" where
  "overridingRegistry =
     [(''unknown'', [(''contact'', JStr ''mine''), (''footer'', JStr ''mine''), (''extra'', JNull)])]"




text \<open>
  Two clients and two generated sites. The configuration of \<open>acme\<close> is the one of the
  unregistered site type, the configuration of \<open>bistro\<close> the one of a restaurant; the
  repository of \<open>acme\<close> refuses a commit. The texts of the two JSON files are named,
  not spelled out.
\<close>

definition bistro :: answers where
  "bistro = \<lparr> clientName = ''Bistro'', clientSlug = ''bistro'', title = ''Bistro'', description = [],
     primaryColor = ''#3498db'', secondaryColor = ''#2c3e50'', siteType = Some ''restaurant'' \<rparr>"

definition demo :: fixture where
  "demo = \<lparr>
     fileTexts = [(''clients/acme.json'', ''acme''), (''clients/bistro.json'', ''bistro''),
                  (''templates/index.html'', ''<html></html>'')],
     listings = [(''clients'', [''acme.json'', ''notes.txt'', ''bistro.json'']),
                 (''output'', [''acme'', ''index.txt'', ''bistro''])],
     directories = [''output/acme'', ''output/bistro''],
     lockedRepos = [''output/acme''],
     parsed = [(''acme'', generateConfigByType acme), (''bistro'', generateConfigByType bistro)] \<rparr>"

text \<open>The same world with both repositories refusing a commit.\<close>

definition lockedDemo :: fixture where
  "lockedDemo = demo\<lparr>lockedRepos := [''output/acme'', ''output/bistro'']\<rparr>"

text \<open>The same world with a \<^verbatim>\<open>stat\<close> that is rejected on the entry \<open>index.txt\<close>.\<close>

definition brokenStatOps :: "(string list) ops" where
  "brokenStatOps = (fixtureOps demo)\<lparr>statIsDirectory :=
     (\<lambda>p w. if p = ''output/index.txt'' then (Inl (External ''ENOENT''), w)
             else statIsDirectory (fixtureOps demo) p w)\<rparr>"

text \<open>A site that has just been generated: its files are not versioned yet.\<close>

definition generatedSite :: repo where
  "generatedSite = \<lparr>present = [''output/bistro''], dirty = True, staged = False, commitLog = []\<rparr>"



section \<open>Properties of generateConfigByType\<close>

lemma map_of_assign: "map_of (assign kvs k v) k' = (if k' = k then Some v else map_of kvs k')"
  by (induction kvs) auto


text \<open>
  C9. Whatever the registry of templates holds and whatever the site type is (registered,
  unregistered or absent), the \<^verbatim>\<open>contact\<close> and \<^verbatim>\<open>footer\<close> fields of the result are the
  shared placeholder sections: they are set after the template is spread, so a template
  that defines them is overridden. The function of the script is the instance at its own
  registry.
\<close>

theorem shared_sections_win:
  "pathOf (generateConfigWith registry a) [''contact''] = contactSection a \<and>
   pathOf (generateConfigWith registry a) [''footer''] = footerSection a \<and>
   pathOf (generateConfigByType a) [''contact''] = contactSection a \<and>
   pathOf (generateConfigByType a) [''footer''] = footerSection a"
  by (simp add: pathOf_def propOf_def generateConfigByType_def generateConfigWith_def map_of_assign)

theorem shared_sections_win_witness:
  "lookupTemplate overridingRegistry (siteType acme)
     = Some [(''contact'', JStr ''mine''), (''footer'', JStr ''mine''), (''extra'', JNull)] \<and>
   pathOf (generateConfigWith overridingRegistry acme) [''contact''] = contactSection acme \<and>
   pathOf (generateConfigWith overridingRegistry acme) [''footer''] = footerSection acme \<and>
   pathOf (generateConfigWith overridingRegistry acme) [''extra''] = JNull"
proof -
  have "lookupTemplate overridingRegistry (siteType acme)
     = Some [(''contact'', JStr ''mine''), (''footer'', JStr ''mine''), (''extra'', JNull)]"
    by (simp add: lookupTemplate_def overridingRegistry_def acme_def)
  moreover have "pathOf (generateConfigWith overridingRegistry acme) [''extra''] = JNull"
    by (simp add: pathOf_def propOf_def generateConfigWith_def lookupTemplate_def
        overridingRegistry_def acme_def spreadOpt_def spread_def baseConfig_def map_of_assign)
  ultimately show ?thesis
    using shared_sections_win [of overridingRegistry acme] by simp
qed

text \<open>
  C4, as the claim states it, fails: a configuration synthesized in the year 2025 does not
  hold the text 2025 in its copyright line.
\<close>

theorem copyright_year_counterexample:
  "toString (pathOf (generateConfigByType acme) [''footer'', ''copyright''])
     = Inr ([CHR 0xA9] @ '' 2024 Acme. Tous droits r'' @ [CHR 0xE9] @ ''serv'' @ [CHR 0xE9] @ ''s.'') \<and>
   \<not> embedsYear 2025
       ([CHR 0xA9] @ '' 2024 Acme. Tous droits r'' @ [CHR 0xE9] @ ''serv'' @ [CHR 0xE9] @ ''s.'')"
  unfolding embedsYear_def
  by code_simp

lemma sublist_middle: "sublist ys (xs @ ys @ zs)"
  by (simp add: sublist_def) blast

text \<open>
  C4, amended. For every answer set the copyright line is the copyright sign, the constant
  year 2024, the client name and the fixed closing words; it does not depend on the moment
  of the call, of which the function has no input.
\<close>

theorem copyright_fixed_year:
  "pathOf (generateConfigByType a) [''footer'', ''copyright''] =
     JStr ([CHR 0xA9] @ '' 2024 '' @ clientName a @ ''. Tous droits r''
        @ [CHR 0xE9] @ ''serv'' @ [CHR 0xE9] @ ''s.'') \<and>
   toString (pathOf (generateConfigByType a) [''footer'', ''copyright'']) =
     Inr ([CHR 0xA9] @ '' 2024 '' @ clientName a @ ''. Tous droits r''
        @ [CHR 0xE9] @ ''serv'' @ [CHR 0xE9] @ ''s.'') \<and>
   embedsYear 2024 ([CHR 0xA9] @ '' 2024 '' @ clientName a @ ''. Tous droits r''
        @ [CHR 0xE9] @ ''serv'' @ [CHR 0xE9] @ ''s.'') \<and>
   sublist (clientName a) ([CHR 0xA9] @ '' 2024 '' @ clientName a @ ''. Tous droits r''
        @ [CHR 0xE9] @ ''serv'' @ [CHR 0xE9] @ ''s.'')"
proof -
  define tail where "tail = ''. Tous droits r'' @ [CHR 0xE9] @ ''serv'' @ [CHR 0xE9] @ ''s.''"
  define full where "full = [CHR 0xA9] @ '' 2024 '' @ clientName a @ tail"
  have eq: "pathOf (generateConfigByType a) [''footer'', ''copyright''] = JStr full"
    by (simp add: pathOf_def propOf_def generateConfigByType_def generateConfigWith_def
        map_of_assign footerSection_def full_def tail_def)
  have d: "decimal 2024 = ''2024''" by code_simp
  have y: "full = [CHR 0xA9, CHR '' ''] @ ''2024'' @ ('' '' @ clientName a @ tail)"
    by (simp add: full_def)
  have n: "full = ([CHR 0xA9] @ '' 2024 '') @ clientName a @ tail"
    by (simp add: full_def)
  have "embedsYear 2024 full"
    unfolding embedsYear_def d by (subst y) (rule sublist_middle)
  moreover have "sublist (clientName a) full"
    by (subst n) (rule sublist_middle)
  moreover have "toString (JStr full) = Inr full" by simp
  ultimately have "pathOf (generateConfigByType a) [''footer'', ''copyright''] = JStr full \<and>
      toString (pathOf (generateConfigByType a) [''footer'', ''copyright'']) = Inr full \<and>
      embedsYear 2024 full \<and> sublist (clientName a) full"
    using eq by simp
  then show ?thesis
    unfolding full_def tail_def .
qed

theorem copyright_fixed_year_witness:
  "toString (pathOf (generateConfigByType acme) [''footer'', ''copyright'']) =
     Inr ([CHR 0xA9] @ '' 2024 Acme. Tous droits r'' @ [CHR 0xE9] @ ''serv'' @ [CHR 0xE9] @ ''s.'')"
  using copyright_fixed_year [of acme] by (simp add: acme_def)










lemma spread_base: "spread [] (baseConfig a) = baseConfig a"
  by (simp add: spread_def baseConfig_def)







section \<open>Properties of the conditional helper\<close>

text \<open>
  C5, as the claim states it, fails: an empty array is a truthy value of JavaScript, so a
  conditional over an empty list emits the truthy branch, not the inverse one.
\<close>

theorem if_helper_empty_array_counterexample:
  "ifHelper (JArr []) (\<lambda>this. ''truthy branch'') (\<lambda>this. ''inverse branch'') JNull
     \<noteq> ''inverse branch''"
  by (simp add: ifHelper_def)

text \<open>
  C5, amended. The helper emits the inverse branch exactly for the falsy values of
  JavaScript (\<^verbatim>\<open>undefined\<close>, \<^verbatim>\<open>null\<close>, \<^verbatim>\<open>false\<close>, zero, \<^verbatim>\<open>NaN\<close> and the empty
  string) and the truthy branch for every other value; every array, the empty one
  included, and every object takes the truthy branch.
\<close>

theorem if_helper_branches:
  "ifHelper v fn inverseFn this =
     (if v \<in> {JUndefined, JNull, JBool False, JNum ''0'', JNum ''NaN'', JStr []}
      then inverseFn this else fn this) \<and>
   ifHelper (JArr xs) fn inverseFn this = fn this \<and>
   ifHelper (JObj kvs) fn inverseFn this = fn this"
  by (cases v) (auto simp: ifHelper_def)

theorem if_helper_branches_witness:
  "ifHelper (JStr []) (\<lambda>this. ''truthy branch'') (\<lambda>this. ''inverse branch'') JNull
     = ''inverse branch'' \<and>
   ifHelper (JArr []) (\<lambda>this. ''truthy branch'') (\<lambda>this. ''inverse branch'') JNull
     = ''truthy branch''"
  using if_helper_branches [of "JStr []" "\<lambda>this. ''truthy branch''" "\<lambda>this. ''inverse branch''" JNull "[]" "[]"]
  by (simp add: ifHelper_def)

section \<open>Properties of generateAssetsList\<close>





















text \<open>
  The configuration of the answers \<open>Acme\<close> with the unregistered site type \<open>unknown\<close>:
  the base skeleton and the two shared sections, and what the asset listing does on it.
\<close>

lemma acme_config_facts:
  "generateConfigByType acme =
     JObj [(''client'', pathOf (generateConfigByType acme) [''client'']),
           (''seo'', pathOf (generateConfigByType acme) [''seo'']),
           (''theme'', pathOf (generateConfigByType acme) [''theme'']),
           (''contact'', contactSection acme),
           (''footer'', footerSection acme)] \<and>
   getProp (generateConfigByType acme) ''header'' = Inr JUndefined \<and>
   getProp (generateConfigByType acme) ''hero'' = Inr JUndefined \<and>
   getProp (generateConfigByType acme) ''sections'' = Inr JUndefined \<and>
   collectAssets (generateConfigByType acme) = Inl TypeError \<and>
   generateAssetsList (generateConfigByType acme) = Inl TypeError \<and>
   readmeContent (generateConfigByType acme) = Inl TypeError"
proof -
  have l: "lookupTemplate (templates acme) (siteType acme) = None"
    by (simp add: lookupTemplate_def templates_def acme_def)
  have shape: "generateConfigByType acme =
     JObj [(''client'', pathOf (generateConfigByType acme) [''client'']),
           (''seo'', pathOf (generateConfigByType acme) [''seo'']),
           (''theme'', pathOf (generateConfigByType acme) [''theme'']),
           (''contact'', contactSection acme),
           (''footer'', footerSection acme)]"
    by (simp add: generateConfigByType_def generateConfigWith_def l spreadOpt_def spread_def
        baseConfig_def pathOf_def propOf_def)
  have h: "getProp (generateConfigByType acme) ''header'' = Inr JUndefined"
    by (subst shape) simp
  have r: "getProp (generateConfigByType acme) ''hero'' = Inr JUndefined"
    by (subst shape) simp
  have s: "getProp (generateConfigByType acme) ''sections'' = Inr JUndefined"
    by (subst shape) simp
  have c: "collectAssets (generateConfigByType acme) = Inl TypeError"
    by (simp add: collectAssets_def h bindE_def)
  have g: "generateAssetsList (generateConfigByType acme) = Inl TypeError"
    by (simp add: generateAssetsList_def c bindE_def)
  have cl: "getProp (generateConfigByType acme) ''client'' =
      Inr (pathOf (generateConfigByType acme) [''client''])"
    by (subst shape) (simp add: pathOf_def propOf_def)
  have base: "generateConfigByType acme =
      JObj (assign (assign (baseConfig acme) ''contact'' (contactSection acme))
        ''footer'' (footerSection acme))"
    by (simp add: generateConfigByType_def generateConfigWith_def l spreadOpt_def spread_base)
  have nm: "getProp (pathOf (generateConfigByType acme) [''client'']) ''name'' = Inr (JStr ''Acme'')"
    unfolding base by (simp add: baseConfig_def pathOf_def propOf_def acme_def)
  have m: "readmeContent (generateConfigByType acme) = Inl TypeError"
    by (simp add: readmeContent_def cl nm g bindE_def)
  from shape h r s c g m show ?thesis by blast
qed

section \<open>Rules for runs\<close>

lemma postD: "post m Q \<Longrightarrow> m w = (r, evs, w') \<Longrightarrow> Q r evs"
  by (auto simp: post_def dest: spec [of _ w])

lemma postI: "(\<And>w r evs w'. m w = (r, evs, w') \<Longrightarrow> Q r evs) \<Longrightarrow> post m Q"
  unfolding post_def by (metis prod.collapse)

lemma post_weaken: "post m P \<Longrightarrow> (\<And>r evs. P r evs \<Longrightarrow> Q r evs) \<Longrightarrow> post m Q"
  by (simp add: post_def)

lemma post_conj: "post m P \<Longrightarrow> post m Q \<Longrightarrow> post m (\<lambda>r evs. P r evs \<and> Q r evs)"
  by (simp add: post_def)

lemma andThen_run:
  assumes "andThen m f w = (r, evs, w')"
  shows "(\<exists>e. m w = (Inl e, evs, w') \<and> r = Inl e) \<or>
     (\<exists>x e1 w1 e2. m w = (Inr x, e1, w1) \<and> f x w1 = (r, e2, w') \<and> evs = e1 @ e2)"
  using assms by (auto simp: andThen_def split: prod.splits sum.splits)

lemma tryCatch_run:
  assumes "tryCatch m h w = (r, evs, w')"
  shows "(\<exists>x. m w = (Inr x, evs, w') \<and> r = Inr x) \<or>
     (\<exists>e e1 w1 e2. m w = (Inl e, e1, w1) \<and> h e w1 = (r, e2, w') \<and> evs = e1 @ e2)"
  using assms by (auto simp: tryCatch_def split: prod.splits sum.splits)

lemma post_andThen:
  assumes m: "post m P" and f: "\<And>x. post (f x) (R x)"
    and l: "\<And>e evs. P (Inl e) evs \<Longrightarrow> Q (Inl e) evs"
    and r: "\<And>x evs r evs'. P (Inr x) evs \<Longrightarrow> R x r evs' \<Longrightarrow> Q r (evs @ evs')"
  shows "post (andThen m f) Q"
proof (rule postI)
  fix w r evs w'
  assume "andThen m f w = (r, evs, w')"
  from andThen_run [OF this] show "Q r evs"
  proof (elim disjE exE conjE)
    fix e
    assume "m w = (Inl e, evs, w')" "r = Inl e"
    with postD [OF m] l show ?thesis by blast
  next
    fix x e1 w1 e2
    assume "m w = (Inr x, e1, w1)" "f x w1 = (r, e2, w')" "evs = e1 @ e2"
    with postD [OF m] postD [OF f] r show ?thesis by blast
  qed
qed

text \<open>An invariant of the error and the events that sequencing keeps.\<close>

lemma post_seq:
  assumes m: "post m (\<lambda>r evs. I (thrown r) evs)"
    and f: "\<And>x. post (f x) (\<lambda>r evs. I (thrown r) evs)"
    and c: "\<And>evs t evs'. I None evs \<Longrightarrow> I t evs' \<Longrightarrow> I t (evs @ evs')"
  shows "post (andThen m f) (\<lambda>r evs. I (thrown r) evs)"
  by (rule post_andThen [OF m f]) (auto simp: thrown_def intro: c)

text \<open>A property of the end of a run needs only the last step.\<close>

lemma post_last:
  assumes f: "\<And>x. post (f x) Q"
    and l: "\<And>e evs. Q (Inl e) evs"
    and r: "\<And>evs r evs'. Q r evs' \<Longrightarrow> Q r (evs @ evs')"
  shows "post (andThen m f) Q"
  by (rule post_andThen [where P = "\<lambda>r evs. True", OF _ f]) (auto simp: post_def intro: l r)

lemma post_ret: "Q (Inr x) [] \<Longrightarrow> post (ret x) Q"
  by (simp add: post_def ret_def)

lemma post_console: "Q (Inr ()) [Console l] \<Longrightarrow> post (console l) Q"
  by (simp add: post_def console_def)

lemma post_fromResult: "Q r [] \<Longrightarrow> post (fromResult r) Q"
  by (simp add: post_def fromResult_def)

lemma post_clock: "(\<And>stamp. Q (Inr stamp) []) \<Longrightarrow> post (clock ops) Q"
  by (simp add: post_def clock_def split: prod.splits)

lemma post_perform:
  assumes "\<And>e. Q (Inl e) [Called c (Some e)]" and "\<And>x. Q (Inr x) [Called c None]"
  shows "post (perform c operation) Q"
  unfolding post_def perform_def using assms
  by (auto split: prod.splits sum.splits)

lemma post_fulfilled:
  assumes "post m (\<lambda>r evs. Q (Inr (\<not> isl r)) evs)"
  shows "post (fulfilled m) Q"
proof (rule postI)
  fix w r evs w'
  assume a: "fulfilled m w = (r, evs, w')"
  obtain r0 e0 w0 where m: "m w = (r0, e0, w0)" by (cases "m w") auto
  from postD [OF assms m] a m show "Q r evs"
    by (cases r0) (auto simp: fulfilled_def)
qed

lemma failedCalls_append: "failedCalls (xs @ ys) = failedCalls xs @ failedCalls ys"
  by (simp add: failedCalls_def)

lemma callsOf_append: "callsOf (xs @ ys) = callsOf xs @ callsOf ys"
  by (simp add: callsOf_def)

lemma deployStarts_append: "deployStarts (xs @ ys) = deployStarts xs @ deployStarts ys"
  by (simp add: deployStarts_def)


section \<open>Properties of deployToNetlify\<close>

lemma faithful_append: "faithful None evs \<Longrightarrow> faithful t evs' \<Longrightarrow> faithful t (evs @ evs')"
proof (cases t)
  case None
  assume "faithful None evs" "faithful t evs'"
  with None show ?thesis by (simp add: faithful_def failedCalls_append)
next
  case (Some e)
  assume a: "faithful None evs" "faithful t evs'"
  with Some obtain pre c where "evs' = pre @ [Called c (Some e)]" "\<not> isProbe c" "failedCalls pre = []"
    by (auto simp: faithful_def)
  with a(1) have "evs @ evs' = (evs @ pre) @ [Called c (Some e)] \<and> \<not> isProbe c \<and> failedCalls (evs @ pre) = []"
    by (simp add: faithful_def failedCalls_append)
  with Some show ?thesis unfolding faithful_def by (simp only: option.case) blast
qed

lemma faithful_console: "post (console l) (\<lambda>r evs. faithful (thrown r) evs)"
  by (rule post_console) (simp add: faithful_def thrown_def failedCalls_def)

lemma faithful_ret: "post (ret x) (\<lambda>r evs. faithful (thrown r) evs)"
  by (rule post_ret) (simp add: faithful_def thrown_def failedCalls_def)

lemma faithful_clock: "post (clock ops) (\<lambda>r evs. faithful (thrown r) evs)"
  by (rule post_clock) (simp add: faithful_def thrown_def failedCalls_def)

lemma faithful_perform:
  "\<not> isProbe c \<Longrightarrow> post (perform c operation) (\<lambda>r evs. faithful (thrown r) evs)"
  by (rule post_perform) (auto simp: faithful_def thrown_def failedCalls_def)

lemma faithful_probe: "post (probeGit ops siteDir) (\<lambda>r evs. faithful (thrown r) evs)"
  unfolding probeGit_def
  by (rule post_fulfilled, rule post_perform) (simp_all add: faithful_def thrown_def failedCalls_def)

lemmas faithful_rules = faithful_console faithful_ret faithful_clock faithful_perform faithful_probe

lemma faithful_initializeGit: "post (initializeGit ops siteDir) (\<lambda>r evs. faithful (thrown r) evs)"
  unfolding initializeGit_def
  by (intro post_seq faithful_rules faithful_append) simp_all

lemma faithful_stageAndCommit:
  "post (stageAndCommit ops siteDir siteName) (\<lambda>r evs. faithful (thrown r) evs)"
  unfolding stageAndCommit_def
  by (intro post_seq faithful_rules faithful_append) simp_all

lemma faithful_printInstructions: "post (printInstructions siteDir) (\<lambda>r evs. faithful (thrown r) evs)"
  unfolding printInstructions_def
  by (intro post_seq faithful_rules faithful_append)

lemma faithful_deployBody:
  "post (deployBody ops siteDir siteName) (\<lambda>r evs. faithful (thrown r) evs)"
  unfolding deployBody_def
  by (intro post_seq faithful_rules faithful_append faithful_stageAndCommit
      faithful_printInstructions)
    (simp_all add: faithful_initializeGit faithful_ret)

text \<open>Events of one kind are absent from a run when every step is free of them.\<close>

lemma free_seq:
  assumes "post m (\<lambda>r evs. list_all P evs)" and "\<And>x. post (f x) (\<lambda>r evs. list_all P evs)"
  shows "post (andThen m f) (\<lambda>r evs. list_all P evs)"
  by (rule post_andThen [OF assms]) simp_all

lemma free_console: "P (Console l) \<Longrightarrow> post (console l) (\<lambda>r evs. list_all P evs)"
  by (rule post_console) simp

lemma free_ret: "post (ret x) (\<lambda>r evs. list_all P evs)"
  by (rule post_ret) simp

lemma free_raise: "post (raise e) (\<lambda>r evs. list_all P evs)"
  by (simp add: post_def raise_def)

lemma free_fromResult: "post (fromResult x) (\<lambda>r evs. list_all P evs)"
  by (rule post_fromResult) simp

lemma free_clock: "post (clock ops) (\<lambda>r evs. list_all P evs)"
  by (rule post_clock) simp

lemma free_perform: "(\<And>t. P (Called c t)) \<Longrightarrow> post (perform c operation) (\<lambda>r evs. list_all P evs)"
  by (rule post_perform) simp_all

lemma free_fulfilled:
  "post m (\<lambda>r evs. list_all P evs) \<Longrightarrow> post (fulfilled m) (\<lambda>r evs. list_all P evs)"
  by (rule post_fulfilled)

lemma free_tryCatch:
  assumes m: "post m (\<lambda>r evs. list_all P evs)" and h: "\<And>e. post (h e) (\<lambda>r evs. list_all P evs)"
  shows "post (tryCatch m h) (\<lambda>r evs. list_all P evs)"
proof (rule postI)
  fix w r evs w'
  assume "tryCatch m h w = (r, evs, w')"
  from tryCatch_run [OF this] postD [OF m] postD [OF h] show "list_all P evs"
    by (elim disjE exE conjE) (simp, fastforce)
qed

lemmas free_rules = free_console free_ret free_raise free_fromResult free_clock free_perform
  free_fulfilled

lemma deployStarts_free: "list_all (\<lambda>ev. \<not> isDeployStart ev) evs \<Longrightarrow> deployStarts evs = []"
proof (induction evs)
  case Nil
  then show ?case by (simp add: deployStarts_def)
next
  case (Cons ev evs)
  then have "deployStarts [ev] = []"
    by (cases ev rule: isDeployStart.cases) (simp_all add: deployStarts_def)
  with Cons deployStarts_append [of "[ev]" evs] show ?case by simp
qed


lemma andThen_console:
  "andThen (console l) f w = (case f () w of (r, evs, w') \<Rightarrow> (r, Console l # evs, w'))"
  by (simp add: andThen_def console_def)

text \<open>The steps of a deployment after its first line start no deployment.\<close>

lemma deploy_rest_free:
  "post (andThen (probeGit ops siteDir) (\<lambda>hasGit.
      andThen (if \<not> hasGit then initializeGit ops siteDir else ret ()) (\<lambda>u.
      andThen (stageAndCommit ops siteDir siteName) (\<lambda>u.
      andThen (printInstructions siteDir) (\<lambda>u. ret True)))))
     (\<lambda>r evs. list_all (\<lambda>ev. \<not> isDeployStart ev) evs)"
proof -
  have i: "post (initializeGit ops siteDir) (\<lambda>r evs. list_all (\<lambda>ev. \<not> isDeployStart ev) evs)"
    unfolding initializeGit_def by (intro free_seq free_rules) simp_all
  have s: "post (stageAndCommit ops siteDir siteName)
      (\<lambda>r evs. list_all (\<lambda>ev. \<not> isDeployStart ev) evs)"
    unfolding stageAndCommit_def by (intro free_seq free_rules) simp_all
  have p: "post (printInstructions siteDir) (\<lambda>r evs. list_all (\<lambda>ev. \<not> isDeployStart ev) evs)"
    unfolding printInstructions_def by (intro free_seq free_rules) simp_all
  have g: "post (probeGit ops siteDir) (\<lambda>r evs. list_all (\<lambda>ev. \<not> isDeployStart ev) evs)"
    unfolding probeGit_def by (intro free_rules) simp_all
  show ?thesis
    by (intro free_seq g s p free_ret) (simp add: i free_ret)
qed

lemma finished_step: "(\<And>x. post (f x) finished) \<Longrightarrow> post (andThen m f) finished"
  by (rule post_last) (auto simp: finished_def split: sum.splits)

lemma finished_deployBody: "post (deployBody ops siteDir siteName) finished"
proof -
  have base: "post (andThen (printInstructions siteDir) (\<lambda>u. ret True)) finished"
    by (simp add: post_def printInstructions_def andThen_def console_def ret_def finished_def)
  show ?thesis
    unfolding deployBody_def
    by (rule finished_step, rule finished_step, rule finished_step, rule finished_step, rule base)
qed

lemma deployBody_shape:
  assumes "deployBody ops siteDir siteName w = (r, evs, w')"
  shows "\<exists>rest. evs = Console (DeployStart siteName) # rest \<and> deployStarts rest = [] \<and>
     faithful (thrown r) evs \<and> finished r evs"
proof -
  obtain r1 e1 w1 where rest: "andThen (probeGit ops siteDir) (\<lambda>hasGit.
      andThen (if \<not> hasGit then initializeGit ops siteDir else ret ()) (\<lambda>u.
      andThen (stageAndCommit ops siteDir siteName) (\<lambda>u.
      andThen (printInstructions siteDir) (\<lambda>u. ret True)))) w = (r1, e1, w1)"
    by (metis prod.collapse)
  with assms have "evs = Console (DeployStart siteName) # e1"
    unfolding deployBody_def by (simp add: andThen_console)
  moreover from postD [OF deploy_rest_free rest] have "deployStarts e1 = []"
    by (rule deployStarts_free)
  moreover note postD [OF faithful_deployBody assms] postD [OF finished_deployBody assms]
  ultimately show ?thesis by blast
qed

text \<open>The outcome of \<^verbatim>\<open>deployToNetlify\<close>, from the outcome of its \<^verbatim>\<open>try\<close> block.\<close>

lemma deploy_outcome:
  assumes "deployToNetlify ops siteDir siteName w = (r, evs, w')"
  shows "(\<exists>body. r = Inr True \<and>
            evs = Console (DeployStart siteName) # body \<and> deployStarts body = [] \<and>
            failedCalls evs = [] \<and> last evs = Console InstructionDetect) \<or>
         (\<exists>e c pre body. r = Inr False \<and> \<not> isProbe c \<and>
            evs = pre @ [Called c (Some e), Console (DeployError e)] \<and>
            failedCalls evs = [(c, e)] \<and>
            evs = Console (DeployStart siteName) # body \<and> deployStarts body = [])"
proof -
  from tryCatch_run [OF assms [unfolded deployToNetlify_def]]
  show ?thesis
  proof (elim disjE exE conjE)
    fix b
    assume b: "deployBody ops siteDir siteName w = (Inr b, evs, w')" and r: "r = Inr b"
    from deployBody_shape [OF b] obtain body where
      s: "evs = Console (DeployStart siteName) # body" "deployStarts body = []"
      and f: "faithful None evs" and n: "finished (Inr b) evs"
      by (auto simp: thrown_def)
    from f have "failedCalls evs = []" by (simp add: faithful_def)
    moreover from n have "b" "last evs = Console InstructionDetect" by (simp_all add: finished_def)
    ultimately show ?thesis using r s by blast
  next
    fix e e1 w1 e2
    assume b: "deployBody ops siteDir siteName w = (Inl e, e1, w1)"
      and h: "andThen (console (DeployError e)) (\<lambda>u. ret False) w1 = (r, e2, w')"
      and evs: "evs = e1 @ e2"
    from h have h': "r = Inr False" "e2 = [Console (DeployError e)]"
      by (auto simp: andThen_def console_def ret_def)
    from deployBody_shape [OF b] obtain body where
      s: "e1 = Console (DeployStart siteName) # body" "deployStarts body = []"
      and f: "faithful (Some e) e1"
      by (auto simp: thrown_def)
    from f obtain pre c where p: "e1 = pre @ [Called c (Some e)]" "\<not> isProbe c" "failedCalls pre = []"
      by (auto simp: faithful_def)
    have e: "evs = pre @ [Called c (Some e), Console (DeployError e)]"
      by (simp add: evs h' p)
    have "failedCalls [Called c (Some e), Console (DeployError e)] = [(c, e)]"
      using p(2) by (simp add: failedCalls_def)
    with p(3) have fc: "failedCalls evs = [(c, e)]"
      by (simp add: e failedCalls_append)
    have e': "evs = Console (DeployStart siteName) # (body @ [Console (DeployError e)])"
      by (simp add: evs h' s)
    have "deployStarts [Console (DeployError e)] = []" by (simp add: deployStarts_def)
    with s(2) have d: "deployStarts (body @ [Console (DeployError e)]) = []"
      by (simp add: deployStarts_append)
    from h'(1) p(2) e fc e' d show ?thesis by blast
  qed
qed

text \<open>
  C7, as the claim states it, fails: the line that logs the failure carries the error, not
  the site name. Two sites whose commit is refused end their runs with the same line.
\<close>

theorem deploy_error_line_counterexample:
  "fst (deployToNetlify (fixtureOps lockedDemo) ''output/acme'' ''acme'' []) = Inr False \<and>
   fst (deployToNetlify (fixtureOps lockedDemo) ''output/bistro'' ''bistro'' []) = Inr False \<and>
   last (fst (snd (deployToNetlify (fixtureOps lockedDemo) ''output/acme'' ''acme'' [])))
     = Console (DeployError (External ''EACCES'')) \<and>
   last (fst (snd (deployToNetlify (fixtureOps lockedDemo) ''output/bistro'' ''bistro'' [])))
     = Console (DeployError (External ''EACCES''))"
  by code_simp

text \<open>
  C7, amended. \<^verbatim>\<open>deployToNetlify\<close> never raises: in every state of the world, for every
  site directory and site name, its result is the boolean true or the boolean false. The
  run starts with the line that names the site. The result is true exactly when no call
  of the run (the opening of the repository, \<^verbatim>\<open>init\<close>, the write of the ignore-list,
  \<^verbatim>\<open>add\<close>, \<^verbatim>\<open>commit\<close>) was rejected, and the run then ends with the last instruction.
  When a call is rejected the run stops there: the error of that call is logged on the
  next and last line, which carries the error and no site name, and the result is false.
\<close>

theorem deploy_never_raises:
  assumes "deployToNetlify ops siteDir siteName w = (r, evs, w')"
  shows "(r = Inr True \<or> r = Inr False) \<and>
     (\<exists>rest. evs = Console (DeployStart siteName) # rest) \<and>
     (r = Inr True \<longleftrightarrow> failedCalls evs = []) \<and>
     (r = Inr True \<longrightarrow> last evs = Console InstructionDetect) \<and>
     (r = Inr False \<longrightarrow>
        (\<exists>pre c e. evs = pre @ [Called c (Some e), Console (DeployError e)] \<and>
           failedCalls evs = [(c, e)]))"
proof -
  from deploy_outcome [OF assms] show ?thesis
  proof (elim disjE exE conjE)
    fix body
    assume "r = Inr True" "evs = Console (DeployStart siteName) # body"
      "failedCalls evs = []" "last evs = Console InstructionDetect"
    then show ?thesis by simp
  next
    fix e c pre body
    assume a: "r = Inr False" "evs = pre @ [Called c (Some e), Console (DeployError e)]"
      "failedCalls evs = [(c, e)]" "evs = Console (DeployStart siteName) # body"
    from a(2,3) have "\<exists>pre c e. evs = pre @ [Called c (Some e), Console (DeployError e)] \<and>
           failedCalls evs = [(c, e)]" by blast
    with a(1,3,4) show ?thesis by simp
  qed
qed

theorem deploy_never_raises_witness:
  "fst (deployToNetlify (fixtureOps demo) ''output/acme'' ''acme'' []) = Inr False \<and>
   failedCalls (fst (snd (deployToNetlify (fixtureOps demo) ''output/acme'' ''acme'' [])))
     = [(GitCommit ''output/acme'' ''Deploy acme - 2024-01-01T00:00:00.000Z'', External ''EACCES'')] \<and>
   hd (fst (snd (deployToNetlify (fixtureOps demo) ''output/acme'' ''acme'' [])))
     = Console (DeployStart ''acme'') \<and>
   last (fst (snd (deployToNetlify (fixtureOps demo) ''output/acme'' ''acme'' [])))
     = Console (DeployError (External ''EACCES''))"
proof -
  have run: "deployToNetlify (fixtureOps demo) ''output/acme'' ''acme'' [] =
      (fst (deployToNetlify (fixtureOps demo) ''output/acme'' ''acme'' []),
       fst (snd (deployToNetlify (fixtureOps demo) ''output/acme'' ''acme'' [])),
       snd (snd (deployToNetlify (fixtureOps demo) ''output/acme'' ''acme'' [])))"
    by simp
  have f: "failedCalls (fst (snd (deployToNetlify (fixtureOps demo) ''output/acme'' ''acme'' [])))
     = [(GitCommit ''output/acme'' ''Deploy acme - 2024-01-01T00:00:00.000Z'', External ''EACCES'')]"
    by code_simp
  have l: "last (fst (snd (deployToNetlify (fixtureOps demo) ''output/acme'' ''acme'' [])))
     = Console (DeployError (External ''EACCES''))"
    by code_simp
  from deploy_never_raises [OF run] f l show ?thesis by auto
qed

lemma andThen_known:
  "m w = (Inr x, e1, w1) \<Longrightarrow>
   andThen m f w = (case f x w1 of (r, e2, w2) \<Rightarrow> (r, e1 @ e2, w2))"
  by (simp add: andThen_def)

lemma stage_calls:
  "post (stageAndCommit ops siteDir siteName)
     (\<lambda>r evs. \<exists>stamp.
        prefix (callsOf evs) [SimpleGit siteDir, GitAdd siteDir ''.'',
          GitCommit siteDir (commitMessage siteName stamp)] \<and>
        (\<not> isl r \<longrightarrow> callsOf evs = [SimpleGit siteDir, GitAdd siteDir ''.'',
          GitCommit siteDir (commitMessage siteName stamp)]))"
  unfolding post_def stageAndCommit_def andThen_def perform_def clock_def callsOf_def
  by (auto split: prod.splits sum.splits)

lemma instruction_calls:
  "post (printInstructions siteDir) (\<lambda>r evs. \<not> isl r \<and> callsOf evs = [])"
  by (simp add: post_def printInstructions_def andThen_def console_def callsOf_def)

lemma commit_and_report_calls:
  "post (andThen (stageAndCommit ops siteDir siteName) (\<lambda>u.
           andThen (printInstructions siteDir) (\<lambda>u. ret True)))
     (\<lambda>r evs. \<exists>stamp.
        prefix (callsOf evs) [SimpleGit siteDir, GitAdd siteDir ''.'',
          GitCommit siteDir (commitMessage siteName stamp)] \<and>
        (\<not> isl r \<longrightarrow> callsOf evs = [SimpleGit siteDir, GitAdd siteDir ''.'',
          GitCommit siteDir (commitMessage siteName stamp)]))"
proof (rule post_andThen [OF stage_calls])
  show "post (andThen (printInstructions siteDir) (\<lambda>u. ret True))
      (\<lambda>r evs. \<not> isl r \<and> callsOf evs = [])" for x :: unit
    by (rule post_andThen [OF instruction_calls, where R = "\<lambda>x r evs. \<not> isl r \<and> evs = []"])
      (simp_all add: post_def ret_def)
qed (auto simp: callsOf_append)

lemma deployBody_versioned:
  assumes a: "fst (access ops (pathJoin siteDir ''.git'') w) = Inr ()"
    and b: "deployBody ops siteDir siteName w = (r, evs, w')"
  shows "\<exists>stamp.
     prefix (callsOf evs) [Access (pathJoin siteDir ''.git''), SimpleGit siteDir,
       GitAdd siteDir ''.'', GitCommit siteDir (commitMessage siteName stamp)] \<and>
     (\<not> isl r \<longrightarrow> callsOf evs = [Access (pathJoin siteDir ''.git''), SimpleGit siteDir,
       GitAdd siteDir ''.'', GitCommit siteDir (commitMessage siteName stamp)])"
proof -
  from a obtain w1 where acc: "access ops (pathJoin siteDir ''.git'') w = (Inr (), w1)"
    by (cases "access ops (pathJoin siteDir ''.git'') w") auto
  have 1: "console (DeployStart siteName) w = (Inr (), [Console (DeployStart siteName)], w)"
    by (simp add: console_def)
  have 2: "probeGit ops siteDir w = (Inr True, [Called (Access (pathJoin siteDir ''.git'')) None], w1)"
    by (simp add: probeGit_def fulfilled_def perform_def acc)
  have 3: "ret () w1 = (Inr (), [], w1)"
    by (simp add: ret_def)
  obtain r2 e2 w2 where t: "andThen (stageAndCommit ops siteDir siteName) (\<lambda>u.
           andThen (printInstructions siteDir) (\<lambda>u. ret True)) w1 = (r2, e2, w2)"
    by (metis prod.collapse)
  have "deployBody ops siteDir siteName w =
      (r2, Console (DeployStart siteName) # Called (Access (pathJoin siteDir ''.git'')) None # e2, w2)"
    unfolding deployBody_def
    by (simp add: andThen_known [of "console (DeployStart siteName)" w, OF 1]
        andThen_known [of "probeGit ops siteDir" w, OF 2] andThen_known [of "ret ()" w1, OF 3] t)
  with b have "r = r2" "evs = Console (DeployStart siteName)
      # Called (Access (pathJoin siteDir ''.git'')) None # e2"
    by simp_all
  moreover have "callsOf (Console (DeployStart siteName)
      # Called (Access (pathJoin siteDir ''.git'')) None # e2)
      = Access (pathJoin siteDir ''.git'') # callsOf e2"
    by (simp add: callsOf_def)
  ultimately show ?thesis
    using postD [OF commit_and_report_calls t] by auto
qed

lemma deploy_calls:
  assumes "deployToNetlify ops siteDir siteName w = (r, evs, w')"
  shows "\<exists>rb eb wb. deployBody ops siteDir siteName w = (rb, eb, wb) \<and> callsOf evs = callsOf eb \<and>
     (r = Inr True \<longrightarrow> \<not> isl rb)"
proof -
  from tryCatch_run [OF assms [unfolded deployToNetlify_def]]
  show ?thesis
  proof (elim disjE exE conjE)
    fix x
    assume "deployBody ops siteDir siteName w = (Inr x, evs, w')"
    then show ?thesis by simp
  next
    fix e e1 w1 e2
    assume b: "deployBody ops siteDir siteName w = (Inl e, e1, w1)"
      and h: "andThen (console (DeployError e)) (\<lambda>u. ret False) w1 = (r, e2, w')"
      and evs: "evs = e1 @ e2"
    from h have "r = Inr False" "e2 = [Console (DeployError e)]"
      by (auto simp: andThen_def console_def ret_def)
    with b evs show ?thesis by (simp add: callsOf_append) (simp add: callsOf_def)
  qed
qed

lemma prefix_free:
  "prefix xs ys \<Longrightarrow> list_all P ys \<Longrightarrow> list_all P xs"
  by (auto simp: prefix_def)

text \<open>
  C8, as the claim states it, fails: the code calls \<^verbatim>\<open>commit\<close>, and whether a commit is
  added is up to the version control. In the world of one repository, the first
  deployment of a generated site initialises version control and makes one commit; the
  second one, on the site now versioned and unchanged, returns true and adds none.
\<close>

theorem redeploy_unchanged_counterexample:
  "commitLog (snd (snd (deployToNetlify repoOps ''output/bistro'' ''bistro'' generatedSite)))
     = [''Deploy bistro - 2024-01-01T00:00:00.000Z''] \<and>
   fst (access repoOps (pathJoin ''output/bistro'' ''.git'')
     (snd (snd (deployToNetlify repoOps ''output/bistro'' ''bistro'' generatedSite)))) = Inr () \<and>
   fst (deployToNetlify repoOps ''output/bistro'' ''bistro''
     (snd (snd (deployToNetlify repoOps ''output/bistro'' ''bistro'' generatedSite)))) = Inr True \<and>
   commitLog (snd (snd (deployToNetlify repoOps ''output/bistro'' ''bistro''
     (snd (snd (deployToNetlify repoOps ''output/bistro'' ''bistro'' generatedSite))))))
     = [''Deploy bistro - 2024-01-01T00:00:00.000Z'']"
  by code_simp

text \<open>
  C8, amended. When the site directory already holds a \<^verbatim>\<open>.git\<close> entry (the probe is
  fulfilled), \<^verbatim>\<open>deployToNetlify\<close> calls neither \<^verbatim>\<open>init\<close> nor the write of the ignore-list,
  nor any other write. From the state the probe left, the world goes through the opening
  of the repository, \<^verbatim>\<open>add\<close> of all files, the reading of the clock and \<^verbatim>\<open>commit\<close> with
  the message that holds the site name and the time stamp, each applied to the state the
  one before left, and through nothing else; the first of them that is rejected ends the
  run with the result false, and when none is the result is true. This holds in every
  state of the world, so for every repetition of the call: no state is terminal. Whether
  \<^verbatim>\<open>commit\<close> adds a commit is decided by the version control.
\<close>

theorem redeploy_commits_only:
  assumes "access ops (pathJoin siteDir ''.git'') w = (Inr (), w0)"
  shows "deployToNetlify ops siteDir siteName w =
     (case simpleGit ops siteDir w0 of
        (Inl e, w1) \<Rightarrow>
          (Inr False,
           [Console (DeployStart siteName), Called (Access (pathJoin siteDir ''.git'')) None,
            Called (SimpleGit siteDir) (Some e), Console (DeployError e)], w1)
      | (Inr opened, w1) \<Rightarrow>
          (case gitAdd ops siteDir ''.'' w1 of
             (Inl e, w2) \<Rightarrow>
               (Inr False,
                [Console (DeployStart siteName), Called (Access (pathJoin siteDir ''.git'')) None,
                 Called (SimpleGit siteDir) None, Called (GitAdd siteDir ''.'') (Some e),
                 Console (DeployError e)], w2)
           | (Inr added, w2) \<Rightarrow>
               (case nowISO ops w2 of
                  (stamp, w3) \<Rightarrow>
                    (case gitCommit ops siteDir (commitMessage siteName stamp) w3 of
                       (Inl e, w4) \<Rightarrow>
                         (Inr False,
                          [Console (DeployStart siteName),
                           Called (Access (pathJoin siteDir ''.git'')) None,
                           Called (SimpleGit siteDir) None, Called (GitAdd siteDir ''.'') None,
                           Called (GitCommit siteDir (commitMessage siteName stamp)) (Some e),
                           Console (DeployError e)], w4)
                     | (Inr committed, w4) \<Rightarrow>
                         (Inr True,
                          [Console (DeployStart siteName),
                           Called (Access (pathJoin siteDir ''.git'')) None,
                           Called (SimpleGit siteDir) None, Called (GitAdd siteDir ''.'') None,
                           Called (GitCommit siteDir (commitMessage siteName stamp)) None,
                           Console DeployReady, Console InstructionsHeader,
                           Console (InstructionCreate siteDir), Console InstructionPush,
                           Console InstructionConnect, Console InstructionDetect], w4))))) \<and>
     list_all (\<lambda>c. \<not> initialises c)
       (callsOf (fst (snd (deployToNetlify ops siteDir siteName w))))"
proof -
  have run: "deployToNetlify ops siteDir siteName w =
      (fst (deployToNetlify ops siteDir siteName w),
       fst (snd (deployToNetlify ops siteDir siteName w)),
       snd (snd (deployToNetlify ops siteDir siteName w)))"
    by simp
  from assms have acc: "fst (access ops (pathJoin siteDir ''.git'') w) = Inr ()" by simp
  from deploy_calls [OF run] obtain rb eb wb where
    b: "deployBody ops siteDir siteName w = (rb, eb, wb)"
    and c: "callsOf (fst (snd (deployToNetlify ops siteDir siteName w))) = callsOf eb"
    by blast
  from deployBody_versioned [OF acc b] obtain stamp where
    p: "prefix (callsOf eb) [Access (pathJoin siteDir ''.git''), SimpleGit siteDir,
       GitAdd siteDir ''.'', GitCommit siteDir (commitMessage siteName stamp)]"
    by blast
  have free: "list_all (\<lambda>c. \<not> initialises c) (callsOf eb)"
    by (rule prefix_free [OF p]) simp
  have "deployToNetlify ops siteDir siteName w =
     (case simpleGit ops siteDir w0 of
        (Inl e, w1) \<Rightarrow>
          (Inr False,
           [Console (DeployStart siteName), Called (Access (pathJoin siteDir ''.git'')) None,
            Called (SimpleGit siteDir) (Some e), Console (DeployError e)], w1)
      | (Inr opened, w1) \<Rightarrow>
          (case gitAdd ops siteDir ''.'' w1 of
             (Inl e, w2) \<Rightarrow>
               (Inr False,
                [Console (DeployStart siteName), Called (Access (pathJoin siteDir ''.git'')) None,
                 Called (SimpleGit siteDir) None, Called (GitAdd siteDir ''.'') (Some e),
                 Console (DeployError e)], w2)
           | (Inr added, w2) \<Rightarrow>
               (case nowISO ops w2 of
                  (stamp, w3) \<Rightarrow>
                    (case gitCommit ops siteDir (commitMessage siteName stamp) w3 of
                       (Inl e, w4) \<Rightarrow>
                         (Inr False,
                          [Console (DeployStart siteName),
                           Called (Access (pathJoin siteDir ''.git'')) None,
                           Called (SimpleGit siteDir) None, Called (GitAdd siteDir ''.'') None,
                           Called (GitCommit siteDir (commitMessage siteName stamp)) (Some e),
                           Console (DeployError e)], w4)
                     | (Inr committed, w4) \<Rightarrow>
                         (Inr True,
                          [Console (DeployStart siteName),
                           Called (Access (pathJoin siteDir ''.git'')) None,
                           Called (SimpleGit siteDir) None, Called (GitAdd siteDir ''.'') None,
                           Called (GitCommit siteDir (commitMessage siteName stamp)) None,
                           Console DeployReady, Console InstructionsHeader,
                           Console (InstructionCreate siteDir), Console InstructionPush,
                           Console InstructionConnect, Console InstructionDetect], w4)))))"
    unfolding deployToNetlify_def deployBody_def probeGit_def stageAndCommit_def
      printInstructions_def tryCatch_def andThen_def console_def perform_def fulfilled_def
      clock_def ret_def
    by (simp add: assms split: prod.splits sum.splits)
  with free c show ?thesis by simp
qed

text \<open>
  In the example world the first deployment of \<open>bistro\<close> initialises version control;
  in the state it leaves, the second one opens the repository, stages and commits.
\<close>

theorem redeploy_commits_only_witness:
  "GitInit ''output/bistro''
     \<in> set (callsOf (fst (snd (deployToNetlify (fixtureOps demo) ''output/bistro'' ''bistro'' [])))) \<and>
   access (fixtureOps demo) (pathJoin ''output/bistro'' ''.git'')
       (snd (snd (deployToNetlify (fixtureOps demo) ''output/bistro'' ''bistro'' [])))
     = (Inr (), [''output/bistro/.gitignore'', ''output/bistro/.git'']) \<and>
   deployToNetlify (fixtureOps demo) ''output/bistro'' ''bistro''
       (snd (snd (deployToNetlify (fixtureOps demo) ''output/bistro'' ''bistro'' [])))
     = (Inr True,
        [Console (DeployStart ''bistro''), Called (Access ''output/bistro/.git'') None,
         Called (SimpleGit ''output/bistro'') None, Called (GitAdd ''output/bistro'' ''.'') None,
         Called (GitCommit ''output/bistro'' ''Deploy bistro - 2024-01-01T00:00:00.000Z'') None,
         Console DeployReady, Console InstructionsHeader,
         Console (InstructionCreate ''output/bistro''), Console InstructionPush,
         Console InstructionConnect, Console InstructionDetect],
        [''output/bistro/.gitignore'', ''output/bistro/.git''])"
proof -
  define w1 where "w1 = snd (snd (deployToNetlify (fixtureOps demo) ''output/bistro'' ''bistro'' []))"
  have first: "w1 = [''output/bistro/.gitignore'', ''output/bistro/.git'']"
    unfolding w1_def by code_simp
  have init: "GitInit ''output/bistro''
     \<in> set (callsOf (fst (snd (deployToNetlify (fixtureOps demo) ''output/bistro'' ''bistro'' []))))"
    by code_simp
  have acc: "access (fixtureOps demo) (pathJoin ''output/bistro'' ''.git'') w1 = (Inr (), w1)"
    unfolding first by code_simp
  have g: "pathJoin ''output/bistro'' ''.git'' = ''output/bistro/.git''"
    by code_simp
  have s: "simpleGit (fixtureOps demo) ''output/bistro'' w1 = (Inr (), w1)"
    "gitAdd (fixtureOps demo) ''output/bistro'' ''.'' w1 = (Inr (), w1)"
    "nowISO (fixtureOps demo) w1 = (''2024-01-01T00:00:00.000Z'', w1)"
    "gitCommit (fixtureOps demo) ''output/bistro''
       ''Deploy bistro - 2024-01-01T00:00:00.000Z'' w1 = (Inr (), w1)"
    "commitMessage ''bistro'' ''2024-01-01T00:00:00.000Z''
       = ''Deploy bistro - 2024-01-01T00:00:00.000Z''"
    unfolding first by code_simp+
  from redeploy_commits_only [OF acc, of "''bistro''"]
  have "deployToNetlify (fixtureOps demo) ''output/bistro'' ''bistro'' w1
     = (Inr True,
        [Console (DeployStart ''bistro''), Called (Access ''output/bistro/.git'') None,
         Called (SimpleGit ''output/bistro'') None, Called (GitAdd ''output/bistro'' ''.'') None,
         Called (GitCommit ''output/bistro'' ''Deploy bistro - 2024-01-01T00:00:00.000Z'') None,
         Console DeployReady, Console InstructionsHeader,
         Console (InstructionCreate ''output/bistro''), Console InstructionPush,
         Console InstructionConnect, Console InstructionDetect], w1)"
    by (simp only: s g prod.case sum.case)
  with init acc show ?thesis
    unfolding w1_def [symmetric] first by simp
qed

section \<open>Properties of deployAll\<close>

lemma forEach_returns:
  assumes step: "\<And>x w r evs w'. x \<in> set xs \<Longrightarrow> f x w = (r, evs, w') \<Longrightarrow> r = Inr () \<and> P x evs"
    and run: "forEachProg f xs w = (r, evs, w')"
  shows "r = Inr () \<and> (\<exists>runs. evs = concat runs \<and> list_all2 P xs runs)"
  using assms
proof (induction xs arbitrary: w r evs w')
  case Nil
  then show ?case by (simp add: ret_def)
next
  case (Cons x xs)
  obtain r1 e1 w1 where h: "f x w = (r1, e1, w1)" by (metis prod.collapse)
  from Cons.prems(1) [OF _ h] have x: "r1 = Inr ()" "P x e1" by simp_all
  obtain r2 e2 w2 where t: "forEachProg f xs w1 = (r2, e2, w2)" by (metis prod.collapse)
  from Cons.prems(2) h x t have res: "r = r2" "evs = e1 @ e2"
    by (simp_all add: andThen_def)
  have "r2 = Inr () \<and> (\<exists>runs. e2 = concat runs \<and> list_all2 P xs runs)"
    by (rule Cons.IH [OF _ t]) (rule Cons.prems(1), simp_all)
  then obtain runs where "r2 = Inr ()" "e2 = concat runs" "list_all2 P xs runs" by blast
  with res x have "r = Inr () \<and> evs = concat (e1 # runs) \<and> list_all2 P (x # xs) (e1 # runs)"
    by simp
  then show ?case by blast
qed

lemma deployStarts_concat:
  "list_all2 (\<lambda>x run. deployStarts run = h x) xs runs \<Longrightarrow>
   deployStarts (concat runs) = concat (map h xs)"
  by (induction rule: list_all2_induct) (simp_all add: deployStarts_def)

lemma deployStarts_first:
  "deployStarts (Console (DeployStart n) # body) = n # deployStarts body"
  by (simp add: deployStarts_def)

lemma deploy_total:
  assumes "deployToNetlify ops siteDir siteName w = (r, evs, w')"
  shows "\<exists>b. r = Inr b \<and> deployStarts evs = [siteName]"
proof -
  from deploy_outcome [OF assms] show ?thesis
  proof (elim disjE exE conjE)
    fix body
    assume "r = Inr True" "evs = Console (DeployStart siteName) # body" "deployStarts body = []"
    then show ?thesis by (auto simp: deployStarts_first)
  next
    fix e c pre body
    assume "r = Inr False" "evs = Console (DeployStart siteName) # body" "deployStarts body = []"
    then show ?thesis by (auto simp: deployStarts_first)
  qed
qed

lemma deployOne_cases:
  assumes "deployOne ops site w = (r, evs, w')"
  shows "(\<exists>e. statIsDirectory ops (pathJoin outputDir site) w = (Inl e, w') \<and> r = Inl e \<and>
            evs = [Called (Stat (pathJoin outputDir site)) (Some e)]) \<or>
         (\<exists>flag. r = Inr () \<and> entryRunAt ops (site, flag) w evs w' \<and>
            deployStarts evs = (if flag then [site] else []))"
proof -
  obtain rs w1 where s: "statIsDirectory ops (pathJoin outputDir site) w = (rs, w1)"
    by (metis prod.collapse)
  show ?thesis
  proof (cases rs)
    case (Inl e)
    with assms s show ?thesis
      by (auto simp: deployOne_def andThen_def perform_def)
  next
    case (Inr b)
    show ?thesis
    proof (cases b)
      case False
      with assms s Inr have "r = Inr ()" "evs = [Called (Stat (pathJoin outputDir site)) None]"
        "w' = w1"
        by (auto simp: deployOne_def andThen_def perform_def ret_def)
      with s Inr False have "r = Inr () \<and> entryRunAt ops (site, False) w evs w' \<and>
          deployStarts evs = (if False then [site] else [])"
        by (simp add: entryRunAt_def deployStarts_def)
      then show ?thesis by blast
    next
      case True
      obtain r2 e2 w2 where d: "deployToNetlify ops (pathJoin outputDir site) site w1 = (r2, e2, w2)"
        by (metis prod.collapse)
      from deploy_total [OF d] obtain bb where bb: "r2 = Inr bb" and st: "deployStarts e2 = [site]"
        by blast
      from assms s Inr True d bb have res: "r = Inr ()"
        "evs = Called (Stat (pathJoin outputDir site)) None # e2" "w' = w2"
        by (auto simp: deployOne_def andThen_def perform_def ret_def)
      have "deployStarts evs = [site]"
        using st deployStarts_append [of "[Called (Stat (pathJoin outputDir site)) None]" e2]
        by (simp add: res) (simp add: deployStarts_def)
      with res s Inr True d bb have "r = Inr () \<and> entryRunAt ops (site, True) w evs w' \<and>
          deployStarts evs = (if True then [site] else [])"
        by (simp add: entryRunAt_def)
      then show ?thesis by blast
    qed
  qed
qed

lemma deployLoop:
  assumes "forEachProg (deployOne ops) sites w = (r, evs, w')"
  shows "(r = Inr () \<and>
          (\<exists>flags runs. length flags = length sites \<and>
             chain (entryRunAt ops) (zip sites flags) w runs w' \<and> evs = concat runs \<and>
             deployStarts evs = map fst (filter snd (zip sites flags)))) \<or>
         (\<exists>k e flags runs w2. k < length sites \<and> r = Inl e \<and> length flags = k \<and>
             chain (entryRunAt ops) (zip (take k sites) flags) w runs w2 \<and>
             statIsDirectory ops (pathJoin outputDir (sites ! k)) w2 = (Inl e, w') \<and>
             evs = concat runs @ [Called (Stat (pathJoin outputDir (sites ! k))) (Some e)] \<and>
             deployStarts evs = map fst (filter snd (zip (take k sites) flags)))"
  using assms
proof (induction sites arbitrary: w r evs w')
  case Nil
  then have "r = Inr () \<and> length ([] :: bool list) = length ([] :: string list) \<and>
      chain (entryRunAt ops) (zip [] ([] :: bool list)) w [] w' \<and> evs = concat [] \<and>
      deployStarts evs = map fst (filter snd (zip [] ([] :: bool list)))"
    by (simp add: ret_def deployStarts_def)
  then show ?case by blast
next
  case (Cons site sites)
  obtain r1 e1 w1 where h: "deployOne ops site w = (r1, e1, w1)" by (metis prod.collapse)
  from deployOne_cases [OF h] show ?case
  proof (elim disjE exE conjE)
    fix e
    assume s: "statIsDirectory ops (pathJoin outputDir site) w = (Inl e, w1)"
      and r1: "r1 = Inl e" and e1: "e1 = [Called (Stat (pathJoin outputDir site)) (Some e)]"
    from Cons.prems h r1 have "r = Inl e" "evs = e1" "w' = w1"
      by (simp_all add: andThen_def)
    with s e1 have "0 < length (site # sites) \<and> r = Inl e \<and> length ([] :: bool list) = 0 \<and>
        chain (entryRunAt ops) (zip (take 0 (site # sites)) ([] :: bool list)) w [] w \<and>
        statIsDirectory ops (pathJoin outputDir ((site # sites) ! 0)) w = (Inl e, w') \<and>
        evs = concat [] @ [Called (Stat (pathJoin outputDir ((site # sites) ! 0))) (Some e)] \<and>
        deployStarts evs = map fst (filter snd (zip (take 0 (site # sites)) ([] :: bool list)))"
      by (simp add: deployStarts_def)
    then show ?thesis by blast
  next
    fix flag
    assume r1: "r1 = Inr ()" and step: "entryRunAt ops (site, flag) w e1 w1"
      and st: "deployStarts e1 = (if flag then [site] else [])"
    obtain r2 e2 w2 where t: "forEachProg (deployOne ops) sites w1 = (r2, e2, w2)"
      by (metis prod.collapse)
    from Cons.prems h r1 t have res: "r = r2" "evs = e1 @ e2" "w' = w2"
      by (simp_all add: andThen_def)
    from Cons.IH [OF t] show ?thesis
    proof (elim disjE exE conjE)
      fix flags runs
      assume "r2 = Inr ()" "length flags = length sites"
        "chain (entryRunAt ops) (zip sites flags) w1 runs w2" "e2 = concat runs"
        "deployStarts e2 = map fst (filter snd (zip sites flags))"
      with res step st have "r = Inr () \<and> length (flag # flags) = length (site # sites) \<and>
          chain (entryRunAt ops) (zip (site # sites) (flag # flags)) w (e1 # runs) w' \<and>
          evs = concat (e1 # runs) \<and>
          deployStarts evs = map fst (filter snd (zip (site # sites) (flag # flags)))"
        by (auto simp: deployStarts_append)
      then show ?thesis by blast
    next
      fix k e flags runs w3
      assume "k < length sites" "r2 = Inl e" "length flags = k"
        "chain (entryRunAt ops) (zip (take k sites) flags) w1 runs w3"
        "statIsDirectory ops (pathJoin outputDir (sites ! k)) w3 = (Inl e, w2)"
        "e2 = concat runs @ [Called (Stat (pathJoin outputDir (sites ! k))) (Some e)]"
        "deployStarts e2 = map fst (filter snd (zip (take k sites) flags))"
      with res step st have "Suc k < length (site # sites) \<and> r = Inl e \<and>
          length (flag # flags) = Suc k \<and>
          chain (entryRunAt ops) (zip (take (Suc k) (site # sites)) (flag # flags)) w (e1 # runs) w3 \<and>
          statIsDirectory ops (pathJoin outputDir ((site # sites) ! Suc k)) w3 = (Inl e, w') \<and>
          evs = concat (e1 # runs)
            @ [Called (Stat (pathJoin outputDir ((site # sites) ! Suc k))) (Some e)] \<and>
          deployStarts evs = map fst (filter snd (zip (take (Suc k) (site # sites)) (flag # flags)))"
        by (auto simp: deployStarts_append)
      then show ?thesis by blast
    qed
  qed
qed

text \<open>
  C10, as the claim states it, fails: \<^verbatim>\<open>deployAll\<close> has no \<^verbatim>\<open>try\<close> block, so a \<^verbatim>\<open>stat\<close>
  that is rejected ends the loop. In the example world with a rejected \<^verbatim>\<open>stat\<close> on
  \<open>index.txt\<close>, the directory \<open>bistro\<close> comes later in the listing and is never
  passed to \<^verbatim>\<open>deployToNetlify\<close>; \<^verbatim>\<open>deployAll\<close> throws.
\<close>

theorem deployAll_rejected_stat_counterexample:
  "fst (readdir brokenStatOps outputDir []) = Inr [''acme'', ''index.txt'', ''bistro''] \<and>
   fst (statIsDirectory brokenStatOps (pathJoin outputDir ''bistro'') []) = Inr True \<and>
   fst (deployAll brokenStatOps []) = Inl (External ''ENOENT'') \<and>
   deployStarts (fst (snd (deployAll brokenStatOps []))) = [''acme'']"
  by code_simp

text \<open>
  C10, amended. \<^verbatim>\<open>deployAll\<close> lists the output directory and examines its entries in
  the order of the listing, each from the state of the world that the one before left.
  An entry that \<^verbatim>\<open>stat\<close> reports not to be a directory leaves nothing but its \<^verbatim>\<open>stat\<close>:
  no deployment, no line, no other call. An entry that \<^verbatim>\<open>stat\<close> reports to be a directory
  is passed to \<^verbatim>\<open>deployToNetlify\<close>, which returns. The deployments started are exactly
  the examined entries that \<^verbatim>\<open>stat\<close> reported to be directories, in the order of the
  listing. When \<^verbatim>\<open>readdir\<close> is rejected, or the \<^verbatim>\<open>stat\<close> of an entry is, \<^verbatim>\<open>deployAll\<close>
  throws that error there, and the later entries are neither examined nor deployed.
\<close>

theorem deployAll_directories_only:
  assumes "deployAll ops w = (r, evs, w')"
  shows "case readdir ops outputDir w of
      (Inl e, w1) \<Rightarrow> r = Inl e \<and> evs = [Called (Readdir outputDir) (Some e)] \<and> w' = w1
    | (Inr sites, w1) \<Rightarrow>
        (r = Inr () \<and>
          (\<exists>flags runs. length flags = length sites \<and>
             chain (entryRunAt ops) (zip sites flags) w1 runs w' \<and>
             evs = Called (Readdir outputDir) None # concat runs \<and>
             deployStarts evs = map fst (filter snd (zip sites flags)))) \<or>
        (\<exists>k e flags runs w2. k < length sites \<and> r = Inl e \<and> length flags = k \<and>
             chain (entryRunAt ops) (zip (take k sites) flags) w1 runs w2 \<and>
             statIsDirectory ops (pathJoin outputDir (sites ! k)) w2 = (Inl e, w') \<and>
             evs = Called (Readdir outputDir) None # concat runs
               @ [Called (Stat (pathJoin outputDir (sites ! k))) (Some e)] \<and>
             deployStarts evs = map fst (filter snd (zip (take k sites) flags)))"
proof -
  obtain rd w1 where rd: "readdir ops outputDir w = (rd, w1)" by (metis prod.collapse)
  show ?thesis
  proof (cases rd)
    case (Inl e)
    with assms rd show ?thesis
      by (auto simp: deployAll_def andThen_def perform_def)
  next
    case (Inr sites)
    obtain r2 e2 w2 where f: "forEachProg (deployOne ops) sites w1 = (r2, e2, w2)"
      by (metis prod.collapse)
    from assms rd Inr f have res: "r = r2" "evs = Called (Readdir outputDir) None # e2" "w' = w2"
      by (simp_all add: deployAll_def andThen_def perform_def)
    have starts: "deployStarts evs = deployStarts e2"
      by (simp add: res deployStarts_def)
    from deployLoop [OF f] show ?thesis
      unfolding rd Inr prod.case sum.case res(1) res(3) starts
      by (simp add: res(2))
  qed
qed

theorem deployAll_directories_only_witness:
  "readdir (fixtureOps demo) outputDir [] = (Inr [''acme'', ''index.txt'', ''bistro''], []) \<and>
   fst (deployAll (fixtureOps demo) []) = Inr () \<and>
   deployStarts (fst (snd (deployAll (fixtureOps demo) []))) = [''acme'', ''bistro''] \<and>
   (\<exists>flags. length flags = 3 \<and>
      deployStarts (fst (snd (deployAll (fixtureOps demo) [])))
        = map fst (filter snd (zip [''acme'', ''index.txt'', ''bistro''] flags)))"
proof -
  have rd: "readdir (fixtureOps demo) outputDir [] = (Inr [''acme'', ''index.txt'', ''bistro''], [])"
    by code_simp
  have run: "deployAll (fixtureOps demo) [] =
      (fst (deployAll (fixtureOps demo) []), fst (snd (deployAll (fixtureOps demo) [])),
       snd (snd (deployAll (fixtureOps demo) [])))"
    by simp
  have ok: "fst (deployAll (fixtureOps demo) []) = Inr ()"
    by code_simp
  have st: "deployStarts (fst (snd (deployAll (fixtureOps demo) []))) = [''acme'', ''bistro'']"
    by code_simp
  from deployAll_directories_only [OF run]
  have "\<exists>flags. length flags = 3 \<and>
      deployStarts (fst (snd (deployAll (fixtureOps demo) [])))
        = map fst (filter snd (zip [''acme'', ''index.txt'', ''bistro''] flags))"
    unfolding rd prod.case sum.case ok by (auto simp: numeral_3_eq_3)
  with rd ok st show ?thesis by blast
qed

section \<open>Properties of generateSite and generateAllSites\<close>















section \<open>The build of a configuration without content blocks\<close>

lemma throws_step: "(\<And>x. post (f x) (\<lambda>r evs. isl r)) \<Longrightarrow> post (andThen m f) (\<lambda>r evs. isl r)"
  by (rule post_last) simp_all

lemma throws_left: "post m (\<lambda>r evs. isl r) \<Longrightarrow> post (andThen m f) (\<lambda>r evs. isl r)"
  by (rule post_andThen [where P = "\<lambda>r evs. isl r" and R = "\<lambda>x r evs. True"])
    (simp_all add: post_def)

lemma setup_throws:
  "readmeContent config = Inl e \<Longrightarrow> post (setupProjectFiles ops config outDir) (\<lambda>r evs. isl r)"
  unfolding setupProjectFiles_def
  by (rule throws_step, rule throws_step, rule throws_left) (simp add: post_def fromResult_def)

lemma andThen_throws_at:
  assumes "m w = (Inr x, e1, w1)" and "post (f x) (\<lambda>r evs. isl r)"
  shows "isl (fst (andThen m f w))"
proof -
  obtain r2 e2 w2 where t: "f x w1 = (r2, e2, w2)" by (metis prod.collapse)
  with postD [OF assms(2) t] assms(1) show ?thesis by (simp add: andThen_def)
qed

lemma console_throws: "isl (fst (f () w)) \<Longrightarrow> isl (fst (andThen (console l) f w))"
  by (cases "f () w") (simp add: andThen_console)

lemma build_throws:
  assumes l: "fst (loadConfig ops configPath w) = Inr config" and m: "readmeContent config = Inl e"
  shows "isl (fst (generateSite ops configPath w))"
proof -
  from l obtain e1 w1 where l': "loadConfig ops configPath w = (Inr config, e1, w1)"
    by (metis prod.collapse)
  have "isl (fst (generateSiteBody ops configPath w))"
    unfolding generateSiteBody_def
    by (rule console_throws, rule andThen_throws_at [of "loadConfig ops configPath" w, OF l'], rule throws_step, rule throws_step,
        rule throws_step, rule throws_step, rule throws_step, rule throws_step, rule throws_left,
        rule setup_throws [OF m])
  then show ?thesis
    by (auto simp: generateSite_def tryCatch_def andThen_def console_def raise_def
        split: prod.splits sum.splits)
qed

text \<open>
  C2. The answers \<open>Acme\<close> with the unregistered site type \<open>unknown\<close> give the base
  skeleton and the two shared sections, with no \<^verbatim>\<open>header\<close>, \<^verbatim>\<open>hero\<close> or \<^verbatim>\<open>sections\<close>.
  On that configuration the asset listing does not contribute nothing: the read of
  \<^verbatim>\<open>config.header.logo\<close> raises a TypeError, so does the text of the README that embeds
  the listing, and in every world in which the configuration is loaded the build throws.
\<close>

theorem unregistered_type_build_throws:
  assumes "fst (loadConfig ops configPath w) = Inr (generateConfigByType acme)"
  shows "generateConfigByType acme =
     JObj [(''client'', pathOf (generateConfigByType acme) [''client'']),
           (''seo'', pathOf (generateConfigByType acme) [''seo'']),
           (''theme'', pathOf (generateConfigByType acme) [''theme'']),
           (''contact'', contactSection acme),
           (''footer'', footerSection acme)] \<and>
   getProp (generateConfigByType acme) ''header'' = Inr JUndefined \<and>
   getProp (generateConfigByType acme) ''hero'' = Inr JUndefined \<and>
   getProp (generateConfigByType acme) ''sections'' = Inr JUndefined \<and>
   generateAssetsList (generateConfigByType acme) = Inl TypeError \<and>
   (\<exists>e. fst (generateSite ops configPath w) = Inl e)"
proof -
  from acme_config_facts have "readmeContent (generateConfigByType acme) = Inl TypeError"
    by blast
  from build_throws [OF assms this] obtain e where "fst (generateSite ops configPath w) = Inl e"
    by (cases "fst (generateSite ops configPath w)") auto
  with acme_config_facts show ?thesis by blast
qed

theorem unregistered_type_build_throws_witness:
  "fst (loadConfig (fixtureOps demo) ''clients/acme.json'' []) = Inr (generateConfigByType acme) \<and>
   generateAssetsList (generateConfigByType acme) = Inl TypeError \<and>
   fst (generateSite (fixtureOps demo) ''clients/acme.json'' []) = Inl TypeError"
proof -
  have l: "fst (loadConfig (fixtureOps demo) ''clients/acme.json'' []) = Inr (generateConfigByType acme)"
    by code_simp
  have g: "fst (generateSite (fixtureOps demo) ''clients/acme.json'' []) = Inl TypeError"
    by code_simp
  from unregistered_type_build_throws [OF l] l g show ?thesis by blast
qed

end
